theory Spec2Isabelle
  imports Complex_Main "HOL-Library.Multiset"
begin

section \<open>Data model\<close>

text \<open>
  The ledger of the digital wallet: users, one wallet per user, and transactions.
  The enums and columns are those of the Prisma model (see the initial migration).
  Field names carry a prefix (\<open>u_\<close>, \<open>w_\<close>, \<open>t_\<close>) because record fields share
  one name space: \<open>w_balance\<close> is \<open>wallet.balance\<close>, \<open>t_toWalletId\<close> is
  \<open>transaction.toWalletId\<close>, and so on.

  Numbers: the balances and amounts in the tables are decimals, kept here as exact
  rationals. The service does not compute on them: \<open>deposit\<close> and \<open>transfer\<close> turn a
  balance into a JavaScript number with \<open>toNumber()\<close> and add or subtract it and the
  amount of the request, itself a JavaScript number, with \<open>+\<close> and \<open>-\<close>. These are
  modelled in the section on JavaScript numbers. The rounding and the bounds of the
  \<open>DECIMAL(10,2)\<close> columns belong to the database and are outside this model.
\<close>

datatype TransactionType = DEPOSIT | TRANSFER | REVERSAL

datatype TransactionStatus = PENDING | COMPLETED | REVERSED | FAILED

record user =
  u_id :: string
  u_name :: string
  u_cpf :: string

record wallet =
  w_id :: string
  w_userId :: string
  w_balance :: rat

record transaction =
  t_id :: string
  t_type :: TransactionType
  t_amount :: rat
  t_status :: TransactionStatus
  t_description :: "string option"
  t_fromWalletId :: "string option"
  t_toWalletId :: "string option"
  t_reversedTransactionId :: "string option"
  t_createdAt :: int
  t_processedAt :: "int option"

text \<open>The database: three tables, each a list of rows in insertion order.\<close>

record store =
  users :: "user list"
  wallets :: "wallet list"
  transactions :: "transaction list"

text \<open>
  What an operation takes from outside: the identifier the database gives to the row
  it creates, and the clock (\<open>new Date()\<close> and the column default of \<open>created_at\<close>).
\<close>

record env =
  fresh_id :: string
  now :: int

text \<open>
  The exceptions the service can end with. The first three are the NestJS HTTP
  exceptions it throws itself, with their message; \<open>TypeError\<close> is JavaScript's
  error on reading a property of \<open>null\<close>; \<open>PrismaClientKnownRequestError\<close> is
  what Prisma's \<open>update\<close> throws when no row matches (code P2025).
\<close>

datatype exn =
    NotFoundException string
  | BadRequestException string
  | ForbiddenException string
  | TypeError string
  | PrismaClientKnownRequestError string

section \<open>Messages\<close>

text \<open>
  The messages are Portuguese; a letter outside ASCII is written by its code unit
  (all of them are below 256, so one \<open>char\<close> each).
\<close>

definition a_tilde :: char where "a_tilde = CHR 0xE3"
definition a_acute :: char where "a_acute = CHR 0xE1"
definition c_cedilla :: char where "c_cedilla = CHR 0xE7"
definition e_acute :: char where "e_acute = CHR 0xE9"
definition e_circ :: char where "e_circ = CHR 0xEA"
definition i_acute :: char where "i_acute = CHR 0xED"
definition o_acute :: char where "o_acute = CHR 0xF3"
definition o_tilde :: char where "o_tilde = CHR 0xF5"

definition msg_carteira_nao_encontrada :: string where
  "msg_carteira_nao_encontrada = ''Carteira n'' @ [a_tilde] @ ''o encontrada''"

definition msg_deposito :: string where
  "msg_deposito = ''Dep'' @ [o_acute] @ ''sito''"

definition msg_transferencia :: string where
  "msg_transferencia = ''Transfer'' @ [e_circ] @ ''ncia''"

definition msg_remetente_nao_encontrado :: string where
  "msg_remetente_nao_encontrado =
     ''Usu'' @ [a_acute] @ ''rio remetente n'' @ [a_tilde] @ ''o encontrado''"

definition msg_transferir_para_si :: string where
  "msg_transferir_para_si =
     ''N'' @ [a_tilde] @ ''o '' @ [e_acute] @ '' poss'' @ [i_acute]
       @ ''vel transferir para si mesmo''"

definition msg_destinatario_nao_encontrado :: string where
  "msg_destinatario_nao_encontrado =
     ''Destinat'' @ [a_acute] @ ''rio n'' @ [a_tilde] @ ''o encontrado''"

definition msg_saldo_insuficiente :: string where
  "msg_saldo_insuficiente = ''Saldo insuficiente. Dispon'' @ [i_acute] @ ''vel: R$ ''"

definition msg_transacao_nao_encontrada :: string where
  "msg_transacao_nao_encontrada =
     ''Transa'' @ [c_cedilla, a_tilde] @ ''o n'' @ [a_tilde] @ ''o encontrada''"

definition msg_sem_permissao :: string where
  "msg_sem_permissao =
     ''Voc'' @ [e_circ] @ '' n'' @ [a_tilde] @ ''o tem permiss'' @ [a_tilde]
       @ ''o para reverter esta transa'' @ [c_cedilla, a_tilde] @ ''o''"

definition msg_ja_revertida :: string where
  "msg_ja_revertida =
     ''Esta transa'' @ [c_cedilla, a_tilde] @ ''o j'' @ [a_acute] @ '' foi revertida''"

definition msg_reversoes_nao_revertidas :: string where
  "msg_reversoes_nao_revertidas =
     ''Revers'' @ [o_tilde] @ ''es n'' @ [a_tilde] @ ''o podem ser revertidas''"

definition msg_deposito_invalido :: string where
  "msg_deposito_invalido =
     ''Transa'' @ [c_cedilla, a_tilde] @ ''o de dep'' @ [o_acute] @ ''sito inv''
       @ [a_acute] @ ''lida: toWalletId n'' @ [a_tilde] @ ''o encontrado''"

definition msg_transferencia_invalida :: string where
  "msg_transferencia_invalida =
     ''Transa'' @ [c_cedilla, a_tilde] @ ''o de transfer'' @ [e_circ] @ ''ncia inv''
       @ [a_acute] @ ''lida: wallet IDs n'' @ [a_tilde] @ ''o encontrados''"

definition msg_carteira_destinatario :: string where
  "msg_carteira_destinatario =
     ''Carteira do destinat'' @ [a_acute] @ ''rio n'' @ [a_tilde] @ ''o encontrada''"

definition msg_sem_saldo_reversao :: string where
  "msg_sem_saldo_reversao =
     ''Destinat'' @ [a_acute] @ ''rio n'' @ [a_tilde]
       @ ''o tem saldo suficiente para revers'' @ [a_tilde] @ ''o''"

definition msg_reversao_sem_destino :: string where
  "msg_reversao_sem_destino =
     ''N'' @ [a_tilde] @ ''o '' @ [e_acute] @ '' poss'' @ [i_acute] @ ''vel criar revers''
       @ [a_tilde] @ ''o: wallet de destino n'' @ [a_tilde] @ ''o encontrado''"

definition msg_carteira_apos_reversao :: string where
  "msg_carteira_apos_reversao =
     ''Carteira n'' @ [a_tilde] @ ''o encontrada ap'' @ [o_acute] @ ''s revers''
       @ [a_tilde] @ ''o''"

definition msg_revertida_com_sucesso :: string where
  "msg_revertida_com_sucesso =
     ''Transa'' @ [c_cedilla, a_tilde] @ ''o revertida com sucesso''"

section \<open>The Prisma client\<close>

text \<open>\<open>findUnique\<close> on each unique column: the row, or \<open>null\<close>.\<close>

definition wallet_findUnique_userId :: "store \<Rightarrow> string \<Rightarrow> wallet option" where
  "wallet_findUnique_userId db userId = find (\<lambda>w. w_userId w = userId) (wallets db)"

definition wallet_findUnique_id :: "store \<Rightarrow> string \<Rightarrow> wallet option" where
  "wallet_findUnique_id db i = find (\<lambda>w. w_id w = i) (wallets db)"

definition user_findUnique_id :: "store \<Rightarrow> string \<Rightarrow> user option" where
  "user_findUnique_id db i = find (\<lambda>u. u_id u = i) (users db)"

definition user_findUnique_cpf :: "store \<Rightarrow> string \<Rightarrow> user option" where
  "user_findUnique_cpf db c = find (\<lambda>u. u_cpf u = c) (users db)"

definition transaction_findUnique :: "store \<Rightarrow> string \<Rightarrow> transaction option" where
  "transaction_findUnique db i = find (\<lambda>t. t_id t = i) (transactions db)"

text \<open>
  \<open>wallet.update({where: {id}, data: {balance: ...}})\<close>. The new balance is given as
  a function of the old one: a constant function for \<open>balance: v\<close>, an addition for
  \<open>{increment: a}\<close>, a subtraction for \<open>{decrement: a}\<close>. Prisma throws when no row
  has the id.
\<close>

definition set_balance :: "string \<Rightarrow> (rat \<Rightarrow> rat) \<Rightarrow> wallet \<Rightarrow> wallet" where
  "set_balance i f w = (if w_id w = i then w\<lparr>w_balance := f (w_balance w)\<rparr> else w)"

definition wallet_update :: "string \<Rightarrow> (rat \<Rightarrow> rat) \<Rightarrow> store \<Rightarrow> exn + store" where
  "wallet_update i f db =
     (case wallet_findUnique_id db i of
        None \<Rightarrow> Inl (PrismaClientKnownRequestError ''P2025'')
      | Some _ \<Rightarrow> Inr (db\<lparr>wallets := map (set_balance i f) (wallets db)\<rparr>))"

text \<open>\<open>transaction.update({where: {id}, data: {status}})\<close>.\<close>

definition set_status :: "string \<Rightarrow> TransactionStatus \<Rightarrow> transaction \<Rightarrow> transaction" where
  "set_status i st t = (if t_id t = i then t\<lparr>t_status := st\<rparr> else t)"

definition transaction_update_status ::
  "string \<Rightarrow> TransactionStatus \<Rightarrow> store \<Rightarrow> exn + store" where
  "transaction_update_status i st db =
     (case transaction_findUnique db i of
        None \<Rightarrow> Inl (PrismaClientKnownRequestError ''P2025'')
      | Some _ \<Rightarrow> Inr (db\<lparr>transactions := map (set_status i st) (transactions db)\<rparr>))"

text \<open>
  \<open>transaction.create({data})\<close>: the database fills in the id and \<open>createdAt\<close>, the
  row is appended, and the created row is returned.
\<close>

definition transaction_create :: "env \<Rightarrow> transaction \<Rightarrow> store \<Rightarrow> transaction \<times> store" where
  "transaction_create e data db =
     (let row = data\<lparr>t_id := fresh_id e, t_createdAt := now e\<rparr>
      in (row, db\<lparr>transactions := transactions db @ [row]\<rparr>))"

text \<open>
  \<open>prisma.$transaction(callback)\<close>: the callback runs on the store; when it throws,
  everything it wrote is rolled back and the exception is passed on.
\<close>

definition dollar_transaction ::
  "(store \<Rightarrow> exn + ('a \<times> store)) \<Rightarrow> store \<Rightarrow> (exn + 'a) \<times> store" where
  "dollar_transaction callback db =
     (case callback db of
        Inl e \<Rightarrow> (Inl e, db)
      | Inr (r, db') \<Rightarrow> (Inr r, db'))"

section \<open>JavaScript numbers\<close>

text \<open>
  A JavaScript number is an IEEE 754 binary64 value. A finite one is modelled by its
  exact value, a rational \<open>m * 2^k\<close> with \<open>\<bar>m\<bar> < 2^53\<close>. \<open>binary64 x\<close> is the number
  nearest to the rational \<open>x\<close>, the one with the even significand when two are equally
  near: the result of every arithmetic operation of the language on the exact result
  \<open>x\<close>, and of reading a decimal. The spacing of the numbers around \<open>x\<close> is
  \<open>2^(e - 52)\<close> where \<open>2^e \<le> \<bar>x\<bar> < 2^(e + 1)\<close>, and \<open>2^(- 1074)\<close> below \<open>2^(- 1022)\<close>.
  Overflow to \<open>Infinity\<close> (magnitudes from \<open>2^1024\<close>) is not modelled.
\<close>

text \<open>The number of binary digits of a positive integer.\<close>

function bit_length :: "int \<Rightarrow> int" where
  "bit_length n = (if n \<le> 0 then 0 else 1 + bit_length (n div 2))"
  by pat_completeness auto
termination
  by (relation "measure nat") auto

declare bit_length.simps [simp del]

text \<open>
  The exponent \<open>e\<close> with \<open>2^e \<le> x < 2^(e + 1)\<close> of a positive rational \<open>p / q\<close>: the
  difference of the bit lengths, or one less.
\<close>

definition floor_log2 :: "rat \<Rightarrow> int" where
  "floor_log2 x =
     (case quotient_of x of
        (p, q) \<Rightarrow>
          (let t = bit_length p - bit_length q
           in if 2 powi t \<le> x then t else t - 1))"

text \<open>The nearest integer, the even one of two equally near.\<close>

definition round_half_even :: "rat \<Rightarrow> int" where
  "round_half_even y =
     (let f = \<lfloor>y\<rfloor>; d = y - of_int f
      in if d < 1 / 2 then f
         else if 1 / 2 < d then f + 1
         else if even f then f else f + 1)"

definition binary64 :: "rat \<Rightarrow> rat" where
  "binary64 x =
     (if x = 0 then 0
      else
        (let e = max (floor_log2 \<bar>x\<bar>) (- 1022);
             q = 2 powi (e - 52)
         in of_int (round_half_even (x / q)) * q))"

text \<open>
  \<open>Decimal.toNumber()\<close> on a stored decimal, and \<open>+\<close> and \<open>-\<close> on two numbers. A number
  written back to a decimal column, or given as an increment, is taken at its exact
  value.
\<close>

definition toNumber :: "rat \<Rightarrow> rat" where
  "toNumber d = binary64 d"

definition number_plus :: "rat \<Rightarrow> rat \<Rightarrow> rat" where
  "number_plus x y = binary64 (x + y)"

definition number_minus :: "rat \<Rightarrow> rat \<Rightarrow> rat" where
  "number_minus x y = binary64 (x - y)"

section \<open>TransactionsService.deposit\<close>

record DepositDto =
  d_amount :: rat
  d_description :: "string option"

text \<open>\<open>description || fallback\<close>: the fallback replaces \<open>undefined\<close> and the empty string.\<close>

definition or_default :: "string option \<Rightarrow> string \<Rightarrow> string" where
  "or_default d fallback =
     (case d of None \<Rightarrow> fallback | Some x \<Rightarrow> if x = [] then fallback else x)"

text \<open>
  The request: \<open>amount\<close> is a JavaScript number. The object \<open>deposit\<close> returns: the
  created transaction and the two balances, JavaScript numbers too.
\<close>

record deposit_result =
  dr_transaction :: transaction
  dr_newBalance :: rat
  dr_previousBalance :: rat

definition deposit_callback ::
  "env \<Rightarrow> string \<Rightarrow> DepositDto \<Rightarrow> store \<Rightarrow> exn + (deposit_result \<times> store)" where
  "deposit_callback e userId depositDto tx =
     (case wallet_findUnique_userId tx userId of
        None \<Rightarrow> Inl (NotFoundException msg_carteira_nao_encontrada)
      | Some wallet \<Rightarrow>
          (let previousBalance = toNumber (w_balance wallet);
               newBalance = number_plus previousBalance (d_amount depositDto)
           in case wallet_update (w_id wallet) (\<lambda>_. newBalance) tx of
                Inl ex \<Rightarrow> Inl ex
              | Inr tx1 \<Rightarrow>
                  (case transaction_create e
                          \<lparr>t_id = [], t_type = DEPOSIT, t_amount = d_amount depositDto,
                           t_status = COMPLETED,
                           t_description = Some (or_default (d_description depositDto) msg_deposito),
                           t_fromWalletId = None, t_toWalletId = Some (w_id wallet),
                           t_reversedTransactionId = None, t_createdAt = 0,
                           t_processedAt = Some (now e)\<rparr> tx1 of
                     (transaction, tx2) \<Rightarrow>
                       Inr (\<lparr>dr_transaction = transaction, dr_newBalance = newBalance,
                             dr_previousBalance = previousBalance\<rparr>, tx2))))"

definition deposit ::
  "env \<Rightarrow> string \<Rightarrow> DepositDto \<Rightarrow> store \<Rightarrow> (exn + deposit_result) \<times> store" where
  "deposit e userId depositDto db = dollar_transaction (deposit_callback e userId depositDto) db"

section \<open>Number.prototype.toFixed(2)\<close>

text \<open>
  The decimal digits of a natural number, and \<open>toFixed(2)\<close> as ECMAScript defines it
  for a number below \<open>10^21\<close>: the sign, then the integer \<open>n\<close> nearest to a hundred
  times the magnitude (the larger one of two equally near), written with at least
  three digits and a point before the last two.
\<close>

definition digit_char :: "nat \<Rightarrow> char" where
  "digit_char d = ''0123456789'' ! d"

fun decimal_digits :: "nat \<Rightarrow> string" where
  "decimal_digits n =
     (if n < 10 then [digit_char n] else decimal_digits (n div 10) @ [digit_char (n mod 10)])"

declare decimal_digits.simps [simp del]

definition toFixed2 :: "rat \<Rightarrow> string" where
  "toFixed2 x =
     (let s = (if x < 0 then ''-'' else []);
          n = nat \<lfloor>\<bar>x\<bar> * 100 + 1 / 2\<rfloor>;
          m = decimal_digits n;
          m = replicate (3 - length m) CHR ''0'' @ m;
          k = length m
      in s @ take (k - 2) m @ ''.'' @ drop (k - 2) m)"

section \<open>TransactionsService.transfer\<close>

record TransferDto =
  tr_recipientCpf :: string
  tr_amount :: rat
  tr_description :: "string option"

text \<open>\<open>recipientCpf.replace(/[^\d]/g, '')\<close> keeps the decimal digits.\<close>

definition cleanCpf :: "string \<Rightarrow> string" where
  "cleanCpf recipientCpf = filter (\<lambda>c. c \<in> set ''0123456789'') recipientCpf"

record transfer_result =
  xr_transaction :: transaction
  xr_newBalance :: rat
  xr_previousBalance :: rat
  xr_recipient_id :: string
  xr_recipient_name :: string

text \<open>
  The callback given to \<open>$transaction\<close>. The sender's wallet is checked for \<open>null\<close>;
  the recipient's wallet is read but not checked, so \<open>toWallet.id\<close> on \<open>null\<close> is a
  \<open>TypeError\<close> (its argument names the property read), after the sender's balance
  has been written.
\<close>

definition transfer_callback ::
  "env \<Rightarrow> string \<Rightarrow> user \<Rightarrow> TransferDto \<Rightarrow> store \<Rightarrow> exn + (transfer_result \<times> store)" where
  "transfer_callback e userId toUser transferDto tx =
     (case wallet_findUnique_userId tx userId of
        None \<Rightarrow> Inl (NotFoundException msg_carteira_nao_encontrada)
      | Some fromWallet \<Rightarrow>
          (let toWallet = wallet_findUnique_userId tx (u_id toUser);
               currentBalance = toNumber (w_balance fromWallet)
           in if currentBalance < tr_amount transferDto
              then Inl (BadRequestException (msg_saldo_insuficiente @ toFixed2 currentBalance))
              else
                (let previousBalance = currentBalance;
                     newBalance = number_minus currentBalance (tr_amount transferDto)
                 in case wallet_update (w_id fromWallet) (\<lambda>_. newBalance) tx of
                      Inl ex \<Rightarrow> Inl ex
                    | Inr tx1 \<Rightarrow>
                        (case toWallet of
                           None \<Rightarrow> Inl (TypeError ''id'')
                         | Some toWallet \<Rightarrow>
                             (case wallet_update (w_id toWallet)
                                     (\<lambda>b. b + tr_amount transferDto) tx1 of
                                Inl ex \<Rightarrow> Inl ex
                              | Inr tx2 \<Rightarrow>
                                  (case transaction_create e
                                          \<lparr>t_id = [], t_type = TRANSFER,
                                           t_amount = tr_amount transferDto,
                                           t_status = COMPLETED,
                                           t_description =
                                             Some (or_default (tr_description transferDto)
                                                     msg_transferencia),
                                           t_fromWalletId = Some (w_id fromWallet),
                                           t_toWalletId = Some (w_id toWallet),
                                           t_reversedTransactionId = None, t_createdAt = 0,
                                           t_processedAt = Some (now e)\<rparr> tx2 of
                                     (transaction, tx3) \<Rightarrow>
                                       Inr (\<lparr>xr_transaction = transaction,
                                             xr_newBalance = newBalance,
                                             xr_previousBalance = previousBalance,
                                             xr_recipient_id = u_id toUser,
                                             xr_recipient_name = u_name toUser\<rparr>, tx3)))))))"

text \<open>
  The whole operation: the checks before the atomic unit, then the callback.
  \<open>toUser.wallet\<close> is the wallet whose \<open>userId\<close> is the recipient's id.
\<close>

definition transfer ::
  "env \<Rightarrow> string \<Rightarrow> TransferDto \<Rightarrow> store \<Rightarrow> (exn + transfer_result) \<times> store" where
  "transfer e userId transferDto db =
     (case user_findUnique_id db userId of
        None \<Rightarrow> (Inl (NotFoundException msg_remetente_nao_encontrado), db)
      | Some fromUser \<Rightarrow>
          if u_cpf fromUser = cleanCpf (tr_recipientCpf transferDto)
          then (Inl (BadRequestException msg_transferir_para_si), db)
          else
            (case user_findUnique_cpf db (cleanCpf (tr_recipientCpf transferDto)) of
               None \<Rightarrow> (Inl (NotFoundException msg_destinatario_nao_encontrado), db)
             | Some toUser \<Rightarrow>
                 if wallet_findUnique_userId db (u_id toUser) = None
                 then (Inl (NotFoundException msg_destinatario_nao_encontrado), db)
                 else dollar_transaction (transfer_callback e userId toUser transferDto) db))"

section \<open>TransactionsService.reverseTransaction\<close>

text \<open>
  \<open>!x\<close> on an identifier that may be \<open>null\<close>: true for \<open>null\<close> and for the empty
  string. \<open>truthy x\<close> is the identifier when \<open>!x\<close> is false.
\<close>

definition truthy :: "string option \<Rightarrow> string option" where
  "truthy x = (case x of None \<Rightarrow> None | Some i \<Rightarrow> if i = [] then None else Some i)"

text \<open>
  \<open>transaction.toWallet?.user.id\<close> of the included relations: the wallet with the
  referenced id, when there is one, and the id of its user. The user is a required
  relation of the wallet (\<open>user_id\<close> is a foreign key and not null), so its id is the
  wallet's \<open>userId\<close>.
\<close>

definition wallet_user_id :: "store \<Rightarrow> string option \<Rightarrow> string option" where
  "wallet_user_id db walletId =
     (case walletId of
        None \<Rightarrow> None
      | Some i \<Rightarrow> map_option w_userId (wallet_findUnique_id db i))"

text \<open>A nullable description inside a template literal.\<close>

definition template_string :: "string option \<Rightarrow> string" where
  "template_string d = (case d of None \<Rightarrow> ''null'' | Some x \<Rightarrow> x)"

record reverse_result =
  rr_message :: string
  rr_reversalTransaction :: transaction
  rr_newBalance :: rat

text \<open>
  The first step of the callback, the balance changes, by the type of the reversed
  transaction. The reversal does no arithmetic of its own: the amount and the balances
  it reads with \<open>toNumber()\<close> are compared, handed to the database's \<open>increment\<close> and
  \<open>decrement\<close> and returned, and are kept at their stored value here.
\<close>

definition reverse_balances :: "transaction \<Rightarrow> store \<Rightarrow> exn + store" where
  "reverse_balances transaction tx =
     (let amount = t_amount transaction
      in if t_type transaction = DEPOSIT then
           (case truthy (t_toWalletId transaction) of
              None \<Rightarrow> Inl (BadRequestException msg_deposito_invalido)
            | Some toWalletId \<Rightarrow> wallet_update toWalletId (\<lambda>b. b - amount) tx)
         else if t_type transaction = TRANSFER then
           (case truthy (t_fromWalletId transaction) of
              None \<Rightarrow> Inl (BadRequestException msg_transferencia_invalida)
            | Some fromWalletId \<Rightarrow>
                (case truthy (t_toWalletId transaction) of
                   None \<Rightarrow> Inl (BadRequestException msg_transferencia_invalida)
                 | Some toWalletId \<Rightarrow>
                     (case wallet_findUnique_id tx toWalletId of
                        None \<Rightarrow> Inl (NotFoundException msg_carteira_destinatario)
                      | Some toWallet \<Rightarrow>
                          if w_balance toWallet < amount
                          then Inl (BadRequestException msg_sem_saldo_reversao)
                          else
                            (case wallet_update fromWalletId (\<lambda>b. b + amount) tx of
                               Inl ex \<Rightarrow> Inl ex
                             | Inr tx1 \<Rightarrow> wallet_update toWalletId (\<lambda>b. b - amount) tx1))))
         else Inr tx)"

text \<open>The callback: balances, the status of the original, the reversal row, the answer.\<close>

definition reverse_callback ::
  "env \<Rightarrow> string \<Rightarrow> string \<Rightarrow> transaction \<Rightarrow> store \<Rightarrow> exn + (reverse_result \<times> store)" where
  "reverse_callback e userId transactionId transaction tx =
     (case reverse_balances transaction tx of
        Inl ex \<Rightarrow> Inl ex
      | Inr tx2 \<Rightarrow>
          (case transaction_update_status transactionId REVERSED tx2 of
             Inl ex \<Rightarrow> Inl ex
           | Inr tx3 \<Rightarrow>
               (let reversalFromWalletId =
                      (if t_type transaction = DEPOSIT then None
                       else t_toWalletId transaction);
                    reversalToWalletId =
                      (if t_type transaction = DEPOSIT then t_toWalletId transaction
                       else t_fromWalletId transaction)
                in if truthy reversalToWalletId = None
                   then Inl (BadRequestException msg_reversao_sem_destino)
                   else
                     (case transaction_create e
                             \<lparr>t_id = [], t_type = REVERSAL,
                              t_amount = t_amount transaction, t_status = COMPLETED,
                              t_description =
                                Some (''Estorno: '' @ template_string (t_description transaction)),
                              t_fromWalletId = reversalFromWalletId,
                              t_toWalletId = reversalToWalletId,
                              t_reversedTransactionId = Some (t_id transaction),
                              t_createdAt = 0, t_processedAt = Some (now e)\<rparr> tx3 of
                        (reversalTransaction, tx4) \<Rightarrow>
                          (case wallet_findUnique_userId tx4 userId of
                             None \<Rightarrow> Inl (NotFoundException msg_carteira_apos_reversao)
                           | Some updatedWallet \<Rightarrow>
                               Inr (\<lparr>rr_message = msg_revertida_com_sucesso,
                                     rr_reversalTransaction = reversalTransaction,
                                     rr_newBalance = w_balance updatedWallet\<rparr>, tx4))))))"

definition isOwner :: "store \<Rightarrow> transaction \<Rightarrow> string \<Rightarrow> bool" where
  "isOwner db transaction userId =
     (wallet_user_id db (t_toWalletId transaction) = Some userId \<or>
      wallet_user_id db (t_fromWalletId transaction) = Some userId)"

definition reverseTransaction ::
  "env \<Rightarrow> string \<Rightarrow> string \<Rightarrow> store \<Rightarrow> (exn + reverse_result) \<times> store" where
  "reverseTransaction e userId transactionId db =
     (case transaction_findUnique db transactionId of
        None \<Rightarrow> (Inl (NotFoundException msg_transacao_nao_encontrada), db)
      | Some transaction \<Rightarrow>
          if \<not> isOwner db transaction userId
          then (Inl (ForbiddenException msg_sem_permissao), db)
          else if t_status transaction = REVERSED
          then (Inl (BadRequestException msg_ja_revertida), db)
          else if t_type transaction = REVERSAL
          then (Inl (BadRequestException msg_reversoes_nao_revertidas), db)
          else dollar_transaction (reverse_callback e userId transactionId transaction) db)"

section \<open>TransactionsService.getHistory\<close>

text \<open>
  \<open>transaction.findMany\<close> with the wallet as source or destination, newest first.
  Rows created at the same instant are kept in table order here; the database may
  return them in any order, and no property below depends on it.
\<close>

definition involves :: "string \<Rightarrow> transaction \<Rightarrow> bool" where
  "involves walletId t = (t_fromWalletId t = Some walletId \<or> t_toWalletId t = Some walletId)"

definition transaction_findMany :: "store \<Rightarrow> string \<Rightarrow> transaction list" where
  "transaction_findMany db walletId =
     sort_key (\<lambda>t. - t_createdAt t) (filter (involves walletId) (transactions db))"

text \<open>\<open>t.fromWallet?.user\<close>: the user of the referenced wallet, when both exist.\<close>

definition wallet_user :: "store \<Rightarrow> string option \<Rightarrow> user option" where
  "wallet_user db walletId =
     (case walletId of
        None \<Rightarrow> None
      | Some i \<Rightarrow>
          (case wallet_findUnique_id db i of
             None \<Rightarrow> None
           | Some w \<Rightarrow> user_findUnique_id db (w_userId w)))"

record other_party =
  op_id :: "string option"
  op_name :: "string option"

record history_entry =
  h_id :: string
  h_type :: TransactionType
  h_amount :: rat
  h_status :: TransactionStatus
  h_description :: "string option"
  h_createdAt :: int
  h_processedAt :: "int option"
  h_direction :: string
  h_otherParty :: "other_party option"

definition format_entry :: "store \<Rightarrow> wallet \<Rightarrow> transaction \<Rightarrow> history_entry" where
  "format_entry db wallet t =
     \<lparr>h_id = t_id t, h_type = t_type t, h_amount = t_amount t, h_status = t_status t,
      h_description = t_description t, h_createdAt = t_createdAt t,
      h_processedAt = t_processedAt t,
      h_direction = (if t_toWalletId t = Some (w_id wallet) then ''received'' else ''sent''),
      h_otherParty =
        (if t_type t = TRANSFER
         then Some \<lparr>op_id =
                      (if t_toWalletId t = Some (w_id wallet)
                       then map_option u_id (wallet_user db (t_fromWalletId t))
                       else map_option u_id (wallet_user db (t_toWalletId t))),
                    op_name =
                      (if t_toWalletId t = Some (w_id wallet)
                       then map_option u_name (wallet_user db (t_fromWalletId t))
                       else map_option u_name (wallet_user db (t_toWalletId t)))\<rparr>
         else None)\<rparr>"

definition getHistory :: "store \<Rightarrow> string \<Rightarrow> exn + history_entry list" where
  "getHistory db userId =
     (case wallet_findUnique_userId db userId of
        None \<Rightarrow> Inl (NotFoundException msg_carteira_nao_encontrada)
      | Some wallet \<Rightarrow>
          Inr (map (format_entry db wallet) (transaction_findMany db (w_id wallet))))"

section \<open>An example ledger\<close>

text \<open>
  Three users with a wallet each and a few transactions, used to run the operations on
  concrete inputs: Ana deposited 100.50 and sent 50.00 to Bia, Bia sent 30.00 to Caio,
  whose balance is negative.
\<close>

definition ana :: user where
  "ana = \<lparr>u_id = ''u1'', u_name = ''Ana'', u_cpf = ''52998224725''\<rparr>"

definition bia :: user where
  "bia = \<lparr>u_id = ''u2'', u_name = ''Bia'', u_cpf = ''15350946056''\<rparr>"

definition caio :: user where
  "caio = \<lparr>u_id = ''u3'', u_name = ''Caio'', u_cpf = ''39053344705''\<rparr>"

definition tx_deposit :: transaction where
  "tx_deposit =
     \<lparr>t_id = ''t1'', t_type = DEPOSIT, t_amount = 201 / 2, t_status = COMPLETED,
      t_description = Some ''Inicial'', t_fromWalletId = None, t_toWalletId = Some ''w1'',
      t_reversedTransactionId = None, t_createdAt = 10, t_processedAt = Some 10\<rparr>"

definition tx_transfer :: transaction where
  "tx_transfer =
     \<lparr>t_id = ''t2'', t_type = TRANSFER, t_amount = 50, t_status = COMPLETED,
      t_description = Some ''Teste'', t_fromWalletId = Some ''w1'', t_toWalletId = Some ''w2'',
      t_reversedTransactionId = None, t_createdAt = 20, t_processedAt = Some 20\<rparr>"

definition tx_caio :: transaction where
  "tx_caio =
     \<lparr>t_id = ''t3'', t_type = TRANSFER, t_amount = 30, t_status = COMPLETED,
      t_description = None, t_fromWalletId = Some ''w2'', t_toWalletId = Some ''w3'',
      t_reversedTransactionId = None, t_createdAt = 30, t_processedAt = Some 30\<rparr>"

definition ledger :: store where
  "ledger =
     \<lparr>users = [ana, bia, caio],
      wallets = [\<lparr>w_id = ''w1'', w_userId = ''u1'', w_balance = 101 / 2\<rparr>,
                 \<lparr>w_id = ''w2'', w_userId = ''u2'', w_balance = 50\<rparr>,
                 \<lparr>w_id = ''w3'', w_userId = ''u3'', w_balance = - 50\<rparr>],
      transactions = [tx_deposit, tx_transfer, tx_caio]\<rparr>"

text \<open>The same ledger after Ana's transfer to Bia has been reversed.\<close>

definition tx_reversal :: transaction where
  "tx_reversal =
     \<lparr>t_id = ''t4'', t_type = REVERSAL, t_amount = 50, t_status = COMPLETED,
      t_description = Some ''Estorno: Teste'', t_fromWalletId = Some ''w2'',
      t_toWalletId = Some ''w1'', t_reversedTransactionId = Some ''t2'', t_createdAt = 40,
      t_processedAt = Some 40\<rparr>"

definition ledger_reversed :: store where
  "ledger_reversed =
     \<lparr>users = [ana, bia, caio],
      wallets = [\<lparr>w_id = ''w1'', w_userId = ''u1'', w_balance = 201 / 2\<rparr>,
                 \<lparr>w_id = ''w2'', w_userId = ''u2'', w_balance = 0\<rparr>,
                 \<lparr>w_id = ''w3'', w_userId = ''u3'', w_balance = - 50\<rparr>],
      transactions =
        [tx_deposit, tx_transfer\<lparr>t_status := REVERSED\<rparr>, tx_caio, tx_reversal]\<rparr>"

text \<open>The ledger with a deposit that failed and a transfer still pending.\<close>

definition ledger_pending :: store where
  "ledger_pending =
     \<lparr>users = [ana, bia, caio],
      wallets = [\<lparr>w_id = ''w1'', w_userId = ''u1'', w_balance = 101 / 2\<rparr>,
                 \<lparr>w_id = ''w2'', w_userId = ''u2'', w_balance = 50\<rparr>,
                 \<lparr>w_id = ''w3'', w_userId = ''u3'', w_balance = - 50\<rparr>],
      transactions =
        [tx_deposit\<lparr>t_status := FAILED\<rparr>, tx_transfer\<lparr>t_status := PENDING\<rparr>]\<rparr>"

text \<open>The ledger as the atomic unit of a transfer sees it once Bia's wallet is gone.\<close>

definition ledger_vanished :: store where
  "ledger_vanished =
     \<lparr>users = [ana, bia, caio],
      wallets = [\<lparr>w_id = ''w1'', w_userId = ''u1'', w_balance = 101 / 2\<rparr>,
                 \<lparr>w_id = ''w3'', w_userId = ''u3'', w_balance = - 50\<rparr>],
      transactions = [tx_deposit, tx_transfer, tx_caio]\<rparr>"

text \<open>
  Two more users whose balances, 0.10 and 0.30, are decimals that no JavaScript number
  equals.
\<close>

definition dora :: user where
  "dora = \<lparr>u_id = ''u4'', u_name = ''Dora'', u_cpf = ''11144477735''\<rparr>"

definition edu :: user where
  "edu = \<lparr>u_id = ''u5'', u_name = ''Edu'', u_cpf = ''98765432100''\<rparr>"

definition ledger_tenths :: store where
  "ledger_tenths =
     \<lparr>users = [dora, edu],
      wallets = [\<lparr>w_id = ''w4'', w_userId = ''u4'', w_balance = 1 / 10\<rparr>,
                 \<lparr>w_id = ''w5'', w_userId = ''u5'', w_balance = 3 / 10\<rparr>],
      transactions = []\<rparr>"

definition env0 :: env where
  "env0 = \<lparr>fresh_id = ''t9'', now = 90\<rparr>"

section \<open>Lookups and updates\<close>

lemma find_Some_mem: "find P xs = Some x \<Longrightarrow> x \<in> set xs"
  by (induction xs) (auto split: if_splits)

lemma find_Some_holds: "find P xs = Some x \<Longrightarrow> P x"
  by (induction xs) (auto split: if_splits)

lemma find_mem_not_None: "x \<in> set xs \<Longrightarrow> P x \<Longrightarrow> find P xs \<noteq> None"
  by (auto simp: find_None_iff)

lemma find_map_inv:
  assumes "\<And>x. P (g x) = P x"
  shows "find P (map g xs) = map_option g (find P xs)"
  using assms by (induction xs) auto

lemma find_append_Some: "find P xs = Some x \<Longrightarrow> find P (xs @ ys) = Some x"
  by (induction xs) (auto split: if_splits)

lemma set_balance_id [simp]: "w_id (set_balance i f w) = w_id w"
  by (simp add: set_balance_def)

lemma set_balance_userId [simp]: "w_userId (set_balance i f w) = w_userId w"
  by (simp add: set_balance_def)

lemma set_balance_same: "w_id w = i \<Longrightarrow> set_balance i f w = w\<lparr>w_balance := f (w_balance w)\<rparr>"
  by (simp add: set_balance_def)

lemma set_balance_other: "w_id w \<noteq> i \<Longrightarrow> set_balance i f w = w"
  by (simp add: set_balance_def)

lemma set_status_id [simp]: "t_id (set_status i st t) = t_id t"
  by (simp add: set_status_def)

lemma by_id_after_update:
  assumes "wallets db' = map (set_balance i f) (wallets db)"
  shows "wallet_findUnique_id db' j = map_option (set_balance i f) (wallet_findUnique_id db j)"
  by (simp add: wallet_findUnique_id_def assms find_map_inv)

lemma by_userId_after_update:
  assumes "wallets db' = map (set_balance i f) (wallets db)"
  shows "wallet_findUnique_userId db' u =
           map_option (set_balance i f) (wallet_findUnique_userId db u)"
  by (simp add: wallet_findUnique_userId_def assms find_map_inv)

lemma by_userId_same_wallets:
  "wallets db' = wallets db \<Longrightarrow> wallet_findUnique_userId db' u = wallet_findUnique_userId db u"
  by (simp add: wallet_findUnique_userId_def)

lemma by_id_same_wallets:
  "wallets db' = wallets db \<Longrightarrow> wallet_findUnique_id db' i = wallet_findUnique_id db i"
  by (simp add: wallet_findUnique_id_def)

lemma by_userId_has_id:
  assumes "wallet_findUnique_userId db u = Some w"
  shows "\<exists>w'. wallet_findUnique_id db (w_id w) = Some w'"
proof -
  from assms have "w \<in> set (wallets db)"
    unfolding wallet_findUnique_userId_def by (rule find_Some_mem)
  then have "find (\<lambda>x. w_id x = w_id w) (wallets db) \<noteq> None"
    by (rule find_mem_not_None) simp
  then show ?thesis
    by (auto simp: wallet_findUnique_id_def)
qed

lemma by_id_has_userId:
  assumes "wallet_findUnique_id db i = Some w"
  shows "\<exists>w'. wallet_findUnique_userId db (w_userId w) = Some w'"
proof -
  from assms have "w \<in> set (wallets db)"
    unfolding wallet_findUnique_id_def by (rule find_Some_mem)
  then have "find (\<lambda>x. w_userId x = w_userId w) (wallets db) \<noteq> None"
    by (rule find_mem_not_None) simp
  then show ?thesis
    by (auto simp: wallet_findUnique_userId_def)
qed

lemma by_id_is_id: "wallet_findUnique_id db i = Some w \<Longrightarrow> w_id w = i"
  unfolding wallet_findUnique_id_def by (drule find_Some_holds) simp

lemma by_userId_is_userId: "wallet_findUnique_userId db u = Some w \<Longrightarrow> w_userId w = u"
  unfolding wallet_findUnique_userId_def by (drule find_Some_holds) simp

lemma tx_by_id_is_id: "transaction_findUnique db i = Some t \<Longrightarrow> t_id t = i"
  unfolding transaction_findUnique_def by (drule find_Some_holds) simp

lemma wallet_update_found:
  assumes "wallet_findUnique_id db i = Some w"
  obtains tx1 where "wallet_update i f db = Inr tx1"
    and "wallets tx1 = map (set_balance i f) (wallets db)"
    and "transactions tx1 = transactions db"
    and "users tx1 = users db"
proof -
  have "wallet_update i f db = Inr (db\<lparr>wallets := map (set_balance i f) (wallets db)\<rparr>)"
    using assms by (simp add: wallet_update_def)
  then show ?thesis
    by (rule that) simp_all
qed

lemma transaction_create_result:
  obtains row tx' where "transaction_create e d tx = (row, tx')"
    and "row = d\<lparr>t_id := fresh_id e, t_createdAt := now e\<rparr>"
    and "transactions tx' = transactions tx @ [row]"
    and "wallets tx' = wallets tx"
    and "users tx' = users tx"
proof -
  have "transaction_create e d tx =
          (d\<lparr>t_id := fresh_id e, t_createdAt := now e\<rparr>,
           tx\<lparr>transactions := transactions tx @ [d\<lparr>t_id := fresh_id e, t_createdAt := now e\<rparr>]\<rparr>)"
    by (simp add: transaction_create_def Let_def)
  then show ?thesis
    by (rule that) simp_all
qed

lemma by_id_map_inv:
  assumes "wallets db' = map g (wallets db)" and "\<And>w. w_id (g w) = w_id w"
  shows "wallet_findUnique_id db' j = map_option g (wallet_findUnique_id db j)"
  by (simp add: wallet_findUnique_id_def assms find_map_inv)

lemma by_userId_map_inv:
  assumes "wallets db' = map g (wallets db)" and "\<And>w. w_userId (g w) = w_userId w"
  shows "wallet_findUnique_userId db' u = map_option g (wallet_findUnique_userId db u)"
  by (simp add: wallet_findUnique_userId_def assms find_map_inv)

lemma wallet_user_id_map_inv:
  assumes "wallets db' = map g (wallets db)"
    and "\<And>w. w_id (g w) = w_id w" and "\<And>w. w_userId (g w) = w_userId w"
  shows "wallet_user_id db' x = wallet_user_id db x"
  by (cases x) (simp_all add: wallet_user_id_def by_id_map_inv[OF assms(1,2)]
      option.map_comp comp_def assms(3))

lemma isOwner_map_inv:
  assumes "wallets db' = map g (wallets db)"
    and "\<And>w. w_id (g w) = w_id w" and "\<And>w. w_userId (g w) = w_userId w"
    and "t_toWalletId t' = t_toWalletId t" and "t_fromWalletId t' = t_fromWalletId t"
  shows "isOwner db' t' uid = isOwner db t uid"
  by (simp add: isOwner_def wallet_user_id_map_inv[OF assms(1,2,3)] assms(4,5))

lemma isOwner_has_wallet:
  assumes "isOwner db t uid"
  obtains wu where "wallet_findUnique_userId db uid = Some wu"
proof -
  from assms obtain i w where "wallet_findUnique_id db i = Some w" and "w_userId w = uid"
    by (auto simp: isOwner_def wallet_user_id_def split: option.splits)
  with by_id_has_userId[of db i w] show ?thesis
    using that by auto
qed

lemma tx_lookup_after_status:
  assumes "transactions db' = map (set_status i st) (transactions db) @ ys"
    and "transaction_findUnique db i = Some t"
  shows "transaction_findUnique db' i = Some (t\<lparr>t_status := st\<rparr>)"
proof -
  have "find (\<lambda>x. t_id x = i) (map (set_status i st) (transactions db)) =
          map_option (set_status i st) (find (\<lambda>x. t_id x = i) (transactions db))"
    by (rule find_map_inv) simp
  also have "\<dots> = Some (set_status i st t)"
    using assms(2) by (simp add: transaction_findUnique_def)
  also have "set_status i st t = t\<lparr>t_status := st\<rparr>"
    using tx_by_id_is_id[OF assms(2)] by (simp add: set_status_def)
  finally show ?thesis
    by (simp add: transaction_findUnique_def assms(1) find_append_Some)
qed

lemma status_update_found:
  assumes "transaction_findUnique db i = Some t"
  obtains tx' where "transaction_update_status i st db = Inr tx'"
    and "transactions tx' = map (set_status i st) (transactions db)"
    and "wallets tx' = wallets db"
    and "users tx' = users db"
proof -
  have "transaction_update_status i st db =
          Inr (db\<lparr>transactions := map (set_status i st) (transactions db)\<rparr>)"
    using assms by (simp add: transaction_update_status_def)
  then show ?thesis
    by (rule that) simp_all
qed

lemma tx_lookup_same_transactions:
  "transactions db' = transactions db \<Longrightarrow> transaction_findUnique db' i = transaction_findUnique db i"
  by (simp add: transaction_findUnique_def)

section \<open>Reversal: the steps of the callback\<close>

text \<open>What the callback does after the balances, given that those succeeded.\<close>

lemma reverse_callback_after_balances:
  assumes bal: "reverse_balances t db = Inr tx2"
    and ws2: "wallets tx2 = map g (wallets db)"
    and gid: "\<And>w. w_userId (g w) = w_userId w"
    and ts2: "transactions tx2 = transactions db"
    and us2: "users tx2 = users db"
    and t: "transaction_findUnique db tid = Some t"
    and dest: "truthy (if t_type t = DEPOSIT then t_toWalletId t else t_fromWalletId t) \<noteq> None"
    and wu: "wallet_findUnique_userId db uid = Some wu"
  obtains r db' where "reverse_callback e uid tid t db = Inr (r, db')"
    and "wallets db' = map g (wallets db)"
    and "transactions db' =
           map (set_status tid REVERSED) (transactions db) @ [rr_reversalTransaction r]"
    and "users db' = users db"
    and "rr_reversalTransaction r =
           \<lparr>t_id = fresh_id e, t_type = REVERSAL, t_amount = t_amount t, t_status = COMPLETED,
            t_description = Some (''Estorno: '' @ template_string (t_description t)),
            t_fromWalletId = (if t_type t = DEPOSIT then None else t_toWalletId t),
            t_toWalletId = (if t_type t = DEPOSIT then t_toWalletId t else t_fromWalletId t),
            t_reversedTransactionId = Some tid, t_createdAt = now e,
            t_processedAt = Some (now e)\<rparr>"
    and "rr_message r = msg_revertida_com_sucesso"
    and "rr_newBalance r = w_balance (g wu)"
proof -
  have t2: "transaction_findUnique tx2 tid = Some t"
    using t by (simp add: tx_lookup_same_transactions[OF ts2])
  from status_update_found[OF t2, of REVERSED]
  obtain tx3 where u3: "transaction_update_status tid REVERSED tx2 = Inr tx3"
    and ts3: "transactions tx3 = map (set_status tid REVERSED) (transactions tx2)"
    and ws3: "wallets tx3 = wallets tx2" and us3: "users tx3 = users tx2"
    by blast
  let ?data = "\<lparr>t_id = [], t_type = REVERSAL, t_amount = t_amount t, t_status = COMPLETED,
            t_description = Some (''Estorno: '' @ template_string (t_description t)),
            t_fromWalletId = (if t_type t = DEPOSIT then None else t_toWalletId t),
            t_toWalletId = (if t_type t = DEPOSIT then t_toWalletId t else t_fromWalletId t),
            t_reversedTransactionId = Some (t_id t), t_createdAt = 0,
            t_processedAt = Some (now e)\<rparr>"
  obtain row tx4 where c: "transaction_create e ?data tx3 = (row, tx4)"
    and row: "row = ?data\<lparr>t_id := fresh_id e, t_createdAt := now e\<rparr>"
    and ts4: "transactions tx4 = transactions tx3 @ [row]"
    and ws4: "wallets tx4 = wallets tx3" and us4: "users tx4 = users tx3"
    by (rule transaction_create_result)
  have ws: "wallets tx4 = map g (wallets db)"
    by (simp add: ws4 ws3 ws2)
  have look: "wallet_findUnique_userId tx4 uid = Some (g wu)"
    by (simp add: by_userId_map_inv[OF ws gid] wu)
  have res: "reverse_callback e uid tid t db =
          Inr (\<lparr>rr_message = msg_revertida_com_sucesso, rr_reversalTransaction = row,
                rr_newBalance = w_balance (g wu)\<rparr>, tx4)"
    using dest c
    by (cases "t_type t = DEPOSIT") (simp_all add: reverse_callback_def bal u3 Let_def look)
  show ?thesis
    by (rule that[OF res ws]) (simp_all add: ts4 ts3 ts2 us4 us3 us2 row tx_by_id_is_id[OF t])
qed

lemma truthy_Some: "i \<noteq> [] \<Longrightarrow> truthy (Some i) = Some i"
  by (simp add: truthy_def)

lemma reverse_balances_deposit:
  assumes "t_type t = DEPOSIT" and "t_toWalletId t = Some d" and "d \<noteq> []"
    and "wallet_findUnique_id db d = Some wd"
  obtains tx2 where "reverse_balances t db = Inr tx2"
    and "wallets tx2 = map (set_balance d (\<lambda>b. b - t_amount t)) (wallets db)"
    and "transactions tx2 = transactions db"
    and "users tx2 = users db"
proof -
  from wallet_update_found[OF assms(4), of "\<lambda>b. b - t_amount t"]
  obtain tx2 where u: "wallet_update d (\<lambda>b. b - t_amount t) db = Inr tx2"
    and rest: "wallets tx2 = map (set_balance d (\<lambda>b. b - t_amount t)) (wallets db)"
      "transactions tx2 = transactions db" "users tx2 = users db"
    by blast
  have "reverse_balances t db = Inr tx2"
    by (simp add: reverse_balances_def Let_def assms(1,2) truthy_Some[OF assms(3)] u)
  then show ?thesis
    using rest by (rule that)
qed

lemma reverse_balances_transfer:
  assumes "t_type t = TRANSFER"
    and "t_fromWalletId t = Some f" and "f \<noteq> []"
    and "t_toWalletId t = Some d" and "d \<noteq> []"
    and wsrc: "wallet_findUnique_id db f = Some wsrc"
    and wd: "wallet_findUnique_id db d = Some wd"
    and enough: "t_amount t \<le> w_balance wd"
  obtains tx2 where "reverse_balances t db = Inr tx2"
    and "wallets tx2 =
           map (\<lambda>w. set_balance d (\<lambda>b. b - t_amount t) (set_balance f (\<lambda>b. b + t_amount t) w))
             (wallets db)"
    and "transactions tx2 = transactions db"
    and "users tx2 = users db"
proof -
  from wallet_update_found[OF wsrc, of "\<lambda>b. b + t_amount t"]
  obtain tx1 where u1: "wallet_update f (\<lambda>b. b + t_amount t) db = Inr tx1"
    and ws1: "wallets tx1 = map (set_balance f (\<lambda>b. b + t_amount t)) (wallets db)"
    and ts1: "transactions tx1 = transactions db" and us1: "users tx1 = users db"
    by blast
  have "wallet_findUnique_id tx1 d = Some (set_balance f (\<lambda>b. b + t_amount t) wd)"
    by (simp add: by_id_after_update[OF ws1] wd)
  from wallet_update_found[OF this, of "\<lambda>b. b - t_amount t"]
  obtain tx2 where u2: "wallet_update d (\<lambda>b. b - t_amount t) tx1 = Inr tx2"
    and ws2: "wallets tx2 = map (set_balance d (\<lambda>b. b - t_amount t)) (wallets tx1)"
    and ts2: "transactions tx2 = transactions tx1" and us2: "users tx2 = users tx1"
    by blast
  have "reverse_balances t db = Inr tx2"
    using enough
    by (simp add: reverse_balances_def Let_def assms(1,2,4) truthy_Some[OF assms(3)]
        truthy_Some[OF assms(5)] wd u1 u2)
  then show ?thesis
    by (rule that) (simp_all add: ws2 ws1 ts2 ts1 us2 us1)
qed

lemma reverse_balances_transfer_insufficient:
  assumes "t_type t = TRANSFER"
    and "t_fromWalletId t = Some f" and "f \<noteq> []"
    and "t_toWalletId t = Some d" and "d \<noteq> []"
    and wd: "wallet_findUnique_id db d = Some wd"
    and short: "w_balance wd < t_amount t"
  shows "reverse_balances t db = Inl (BadRequestException msg_sem_saldo_reversao)"
  using short
  by (simp add: reverse_balances_def Let_def assms(1,2,4) truthy_Some[OF assms(3)]
      truthy_Some[OF assms(5)] wd)

lemma reverse_balances_shape:
  assumes "reverse_balances t db = Inr tx2"
  obtains g where "wallets tx2 = map g (wallets db)"
    and "\<And>w. w_id (g w) = w_id w" and "\<And>w. w_userId (g w) = w_userId w"
    and "transactions tx2 = transactions db" and "users tx2 = users db"
proof (cases "t_type t")
  case DEPOSIT
  with assms obtain d where "wallet_update d (\<lambda>b. b - t_amount t) db = Inr tx2"
    by (auto simp: reverse_balances_def Let_def split: option.splits)
  then have "tx2 = db\<lparr>wallets := map (set_balance d (\<lambda>b. b - t_amount t)) (wallets db)\<rparr>"
    by (auto simp: wallet_update_def split: option.splits)
  then show ?thesis
    by (intro that[of "set_balance d (\<lambda>b. b - t_amount t)"]) simp_all
next
  case TRANSFER
  with assms obtain f d tx1 where 1: "wallet_update f (\<lambda>b. b + t_amount t) db = Inr tx1"
    and 2: "wallet_update d (\<lambda>b. b - t_amount t) tx1 = Inr tx2"
    by (auto simp: reverse_balances_def Let_def split: option.splits if_splits sum.splits)
  from 1 have "tx1 = db\<lparr>wallets := map (set_balance f (\<lambda>b. b + t_amount t)) (wallets db)\<rparr>"
    by (auto simp: wallet_update_def split: option.splits)
  moreover from 2 have "tx2 = tx1\<lparr>wallets := map (set_balance d (\<lambda>b. b - t_amount t)) (wallets tx1)\<rparr>"
    by (auto simp: wallet_update_def split: option.splits)
  ultimately show ?thesis
    by (intro that[of "\<lambda>w. set_balance d (\<lambda>b. b - t_amount t) (set_balance f (\<lambda>b. b + t_amount t) w)"])
      simp_all
next
  case REVERSAL
  with assms have "tx2 = db"
    by (simp add: reverse_balances_def Let_def)
  then show ?thesis
    by (intro that[of "\<lambda>w. w"]) simp_all
qed

lemma reverseTransaction_callback:
  assumes "transaction_findUnique db tid = Some t" and "isOwner db t uid"
    and "t_status t \<noteq> REVERSED" and "t_type t \<noteq> REVERSAL"
  shows "reverseTransaction e uid tid db = dollar_transaction (reverse_callback e uid tid t) db"
  using assms by (simp add: reverseTransaction_def)

lemma reverse_deposit_succeeds:
  assumes t: "transaction_findUnique db tid = Some t"
    and own: "isOwner db t uid"
    and st: "t_status t \<noteq> REVERSED"
    and ty: "t_type t = DEPOSIT"
    and to: "t_toWalletId t = Some d" "d \<noteq> []"
    and wd: "wallet_findUnique_id db d = Some wd"
  obtains r db' wu where "reverseTransaction e uid tid db = (Inr r, db')"
    and "wallets db' = map (set_balance d (\<lambda>b. b - t_amount t)) (wallets db)"
    and "transactions db' =
           map (set_status tid REVERSED) (transactions db) @ [rr_reversalTransaction r]"
    and "rr_reversalTransaction r =
           \<lparr>t_id = fresh_id e, t_type = REVERSAL, t_amount = t_amount t, t_status = COMPLETED,
            t_description = Some (''Estorno: '' @ template_string (t_description t)),
            t_fromWalletId = None, t_toWalletId = Some d,
            t_reversedTransactionId = Some tid, t_createdAt = now e,
            t_processedAt = Some (now e)\<rparr>"
    and "wallet_findUnique_userId db uid = Some wu"
    and "rr_newBalance r = w_balance (set_balance d (\<lambda>b. b - t_amount t) wu)"
proof -
  from isOwner_has_wallet[OF own] obtain wu where wu: "wallet_findUnique_userId db uid = Some wu" .
  from reverse_balances_deposit[OF ty to wd]
  obtain tx2 where bal: "reverse_balances t db = Inr tx2"
    and ws2: "wallets tx2 = map (set_balance d (\<lambda>b. b - t_amount t)) (wallets db)"
    and ts2: "transactions tx2 = transactions db" and us2: "users tx2 = users db"
    by blast
  have dest: "truthy (if t_type t = DEPOSIT then t_toWalletId t else t_fromWalletId t) \<noteq> None"
    by (simp add: ty to truthy_Some)
  from reverse_callback_after_balances[OF bal ws2 _ ts2 us2 t dest wu, of e]
  obtain r db' where cb: "reverse_callback e uid tid t db = Inr (r, db')"
    and ws: "wallets db' = map (set_balance d (\<lambda>b. b - t_amount t)) (wallets db)"
    and ts: "transactions db' =
           map (set_status tid REVERSED) (transactions db) @ [rr_reversalTransaction r]"
    and row: "rr_reversalTransaction r =
           \<lparr>t_id = fresh_id e, t_type = REVERSAL, t_amount = t_amount t, t_status = COMPLETED,
            t_description = Some (''Estorno: '' @ template_string (t_description t)),
            t_fromWalletId = (if t_type t = DEPOSIT then None else t_toWalletId t),
            t_toWalletId = (if t_type t = DEPOSIT then t_toWalletId t else t_fromWalletId t),
            t_reversedTransactionId = Some tid, t_createdAt = now e,
            t_processedAt = Some (now e)\<rparr>"
    and nb: "rr_newBalance r = w_balance (set_balance d (\<lambda>b. b - t_amount t) wu)"
    by (metis set_balance_userId)
  have "reverseTransaction e uid tid db = (Inr r, db')"
    using reverseTransaction_callback[OF t own st, of e] ty
    by (simp add: dollar_transaction_def cb)
  then show ?thesis
    using ws ts _ wu nb by (rule that) (simp add: row ty to)
qed

lemma reverse_transfer_succeeds:
  assumes t: "transaction_findUnique db tid = Some t"
    and own: "isOwner db t uid"
    and st: "t_status t \<noteq> REVERSED"
    and ty: "t_type t = TRANSFER"
    and "from": "t_fromWalletId t = Some f" "f \<noteq> []"
    and to: "t_toWalletId t = Some d" "d \<noteq> []"
    and wsrc: "wallet_findUnique_id db f = Some wsrc"
    and wd: "wallet_findUnique_id db d = Some wd"
    and enough: "t_amount t \<le> w_balance wd"
  obtains r db' wu where "reverseTransaction e uid tid db = (Inr r, db')"
    and "wallets db' =
           map (\<lambda>w. set_balance d (\<lambda>b. b - t_amount t) (set_balance f (\<lambda>b. b + t_amount t) w))
             (wallets db)"
    and "transactions db' =
           map (set_status tid REVERSED) (transactions db) @ [rr_reversalTransaction r]"
    and "rr_reversalTransaction r =
           \<lparr>t_id = fresh_id e, t_type = REVERSAL, t_amount = t_amount t, t_status = COMPLETED,
            t_description = Some (''Estorno: '' @ template_string (t_description t)),
            t_fromWalletId = Some d, t_toWalletId = Some f,
            t_reversedTransactionId = Some tid, t_createdAt = now e,
            t_processedAt = Some (now e)\<rparr>"
    and "wallet_findUnique_userId db uid = Some wu"
    and "rr_newBalance r =
           w_balance (set_balance d (\<lambda>b. b - t_amount t) (set_balance f (\<lambda>b. b + t_amount t) wu))"
proof -
  let ?g = "\<lambda>w. set_balance d (\<lambda>b. b - t_amount t) (set_balance f (\<lambda>b. b + t_amount t) w)"
  from isOwner_has_wallet[OF own] obtain wu where wu: "wallet_findUnique_userId db uid = Some wu" .
  from reverse_balances_transfer[OF ty "from" to wsrc wd enough]
  obtain tx2 where bal: "reverse_balances t db = Inr tx2"
    and ws2: "wallets tx2 = map ?g (wallets db)"
    and ts2: "transactions tx2 = transactions db" and us2: "users tx2 = users db"
    by blast
  have dest: "truthy (if t_type t = DEPOSIT then t_toWalletId t else t_fromWalletId t) \<noteq> None"
    by (simp add: ty "from" truthy_Some)
  have gu: "\<And>w. w_userId (?g w) = w_userId w"
    by simp
  from reverse_callback_after_balances[OF bal ws2 gu ts2 us2 t dest wu, of e]
  obtain r db' where cb: "reverse_callback e uid tid t db = Inr (r, db')"
    and ws: "wallets db' = map ?g (wallets db)"
    and ts: "transactions db' =
           map (set_status tid REVERSED) (transactions db) @ [rr_reversalTransaction r]"
    and row: "rr_reversalTransaction r =
           \<lparr>t_id = fresh_id e, t_type = REVERSAL, t_amount = t_amount t, t_status = COMPLETED,
            t_description = Some (''Estorno: '' @ template_string (t_description t)),
            t_fromWalletId = (if t_type t = DEPOSIT then None else t_toWalletId t),
            t_toWalletId = (if t_type t = DEPOSIT then t_toWalletId t else t_fromWalletId t),
            t_reversedTransactionId = Some tid, t_createdAt = now e,
            t_processedAt = Some (now e)\<rparr>"
    and nb: "rr_newBalance r = w_balance (?g wu)"
    by blast
  have "reverseTransaction e uid tid db = (Inr r, db')"
    using reverseTransaction_callback[OF t own st, of e] ty
    by (simp add: dollar_transaction_def cb)
  then show ?thesis
    using ws ts _ wu nb by (rule that) (simp add: row ty to "from")
qed

lemma reverse_transfer_insufficient:
  assumes t: "transaction_findUnique db tid = Some t"
    and own: "isOwner db t uid"
    and st: "t_status t \<noteq> REVERSED"
    and ty: "t_type t = TRANSFER"
    and "from": "t_fromWalletId t = Some f" "f \<noteq> []"
    and to: "t_toWalletId t = Some d" "d \<noteq> []"
    and wd: "wallet_findUnique_id db d = Some wd"
    and short: "w_balance wd < t_amount t"
  shows "reverseTransaction e uid tid db =
           (Inl (BadRequestException msg_sem_saldo_reversao), db)"
  using reverseTransaction_callback[OF t own st, of e] ty
  by (simp add: dollar_transaction_def reverse_callback_def
      reverse_balances_transfer_insufficient[OF ty "from" to wd short])

lemma reverse_success_shape:
  assumes "reverseTransaction e uid tid db = (Inr r, db')"
  obtains t g where "transaction_findUnique db tid = Some t"
    and "isOwner db t uid"
    and "wallets db' = map g (wallets db)"
    and "\<And>w. w_id (g w) = w_id w" and "\<And>w. w_userId (g w) = w_userId w"
    and "transactions db' =
           map (set_status tid REVERSED) (transactions db) @ [rr_reversalTransaction r]"
proof -
  from assms obtain t where t: "transaction_findUnique db tid = Some t"
    and own: "isOwner db t uid"
    and cb: "reverse_callback e uid tid t db = Inr (r, db')"
    by (auto simp: reverseTransaction_def dollar_transaction_def
        split: option.splits if_splits sum.splits)
  from cb obtain tx2 where bal: "reverse_balances t db = Inr tx2"
    by (auto simp: reverse_callback_def split: sum.splits)
  from reverse_balances_shape[OF bal]
  obtain g where ws2: "wallets tx2 = map g (wallets db)"
    and gi: "\<And>w. w_id (g w) = w_id w" and gu: "\<And>w. w_userId (g w) = w_userId w"
    and ts2: "transactions tx2 = transactions db" and us2: "users tx2 = users db"
    by blast
  have dest: "truthy (if t_type t = DEPOSIT then t_toWalletId t else t_fromWalletId t) \<noteq> None"
    using cb by (auto simp: reverse_callback_def bal Let_def split: sum.splits if_splits)
  from isOwner_has_wallet[OF own] obtain wu where wu: "wallet_findUnique_userId db uid = Some wu" .
  from reverse_callback_after_balances[OF bal ws2 gu ts2 us2 t dest wu, of e]
  obtain r0 db0 where cb0: "reverse_callback e uid tid t db = Inr (r0, db0)"
    and ws: "wallets db0 = map g (wallets db)"
    and ts: "transactions db0 =
           map (set_status tid REVERSED) (transactions db) @ [rr_reversalTransaction r0]"
    by blast
  from cb cb0 have "r0 = r" "db0 = db'"
    by simp_all
  with ws ts show ?thesis
    using t own gi gu by (intro that[of t g]) simp_all
qed

lemma isOwner_of_wallets:
  assumes "t_fromWalletId t = Some f" and "t_toWalletId t = Some d"
    and "wallet_findUnique_id db f = Some wsrc" and "wallet_findUnique_id db d = Some wdst"
    and "w_userId wsrc = uid \<or> w_userId wdst = uid"
  shows "isOwner db t uid"
  using assms by (auto simp: isOwner_def wallet_user_id_def)

section \<open>History: the projection of one row\<close>

lemma format_entry_fields:
  "h_id (format_entry db wallet t) = t_id t"
  "h_type (format_entry db wallet t) = t_type t"
  "h_amount (format_entry db wallet t) = t_amount t"
  "h_status (format_entry db wallet t) = t_status t"
  "h_createdAt (format_entry db wallet t) = t_createdAt t"
  by (simp_all add: format_entry_def)

lemma format_entry_direction:
  "h_direction (format_entry db wallet t) = ''received'' \<longleftrightarrow> t_toWalletId t = Some (w_id wallet)"
  "h_direction (format_entry db wallet t) = ''sent'' \<longleftrightarrow> t_toWalletId t \<noteq> Some (w_id wallet)"
  by (simp_all add: format_entry_def)

lemma format_entry_otherParty:
  "h_otherParty (format_entry db wallet t) \<noteq> None \<longleftrightarrow> t_type t = TRANSFER"
  by (simp add: format_entry_def)

lemma findMany_newest_first:
  "sorted_wrt (\<lambda>a b. t_createdAt b \<le> t_createdAt a) (transaction_findMany db i)"
proof -
  have "sorted (map (\<lambda>t. - t_createdAt t) (transaction_findMany db i))"
    unfolding transaction_findMany_def by (rule sorted_sort_key)
  then show ?thesis
    by (simp add: sorted_map)
qed

lemma findMany_all:
  "mset (transaction_findMany db i) = filter_mset (involves i) (mset (transactions db))"
  by (simp add: transaction_findMany_def)

section \<open>Transfer without the recipient's wallet\<close>

text \<open>
  What the callback of a transfer does on any store where the sender has a wallet and
  the recipient has none.
\<close>

lemma transfer_callback_recipient_absent:
  assumes sender: "wallet_findUnique_userId tx userId = Some fromWallet"
    and absent: "wallet_findUnique_userId tx (u_id toUser) = None"
  shows "transfer_callback e userId toUser dto tx =
           (if toNumber (w_balance fromWallet) < tr_amount dto
            then Inl (BadRequestException
                        (msg_saldo_insuficiente @ toFixed2 (toNumber (w_balance fromWallet))))
            else Inl (TypeError ''id''))"
proof -
  from by_userId_has_id[OF sender]
  obtain w where "wallet_findUnique_id tx (w_id fromWallet) = Some w"
    by blast
  from wallet_update_found[OF this,
      of "\<lambda>_. number_minus (toNumber (w_balance fromWallet)) (tr_amount dto)"]
  obtain tx1 where
    "wallet_update (w_id fromWallet)
       (\<lambda>_. number_minus (toNumber (w_balance fromWallet)) (tr_amount dto)) tx = Inr tx1"
    by blast
  then show ?thesis
    by (simp add: transfer_callback_def sender absent Let_def)
qed

section \<open>Evaluating the digits\<close>



section \<open>Some JavaScript numbers\<close>

text \<open>
  The numbers nearest to 0.1, 0.2 and 0.3, the sum \<open>0.1 + 0.2\<close> and the difference
  \<open>0.3 - 0.1\<close> as the language computes them, and a few numbers that are exact.
\<close>

lemma number_one_tenth: "binary64 (1 / 10) = 3602879701896397 / 2 ^ 55"
  by code_simp

lemma number_one_fifth: "binary64 (1 / 5) = 3602879701896397 / 2 ^ 54"
  by code_simp

lemma number_three_tenths: "binary64 (3 / 10) = 5404319552844595 / 2 ^ 54"
  by code_simp

lemma number_sum_tenths:
  "binary64 (3602879701896397 / 2 ^ 55 + 3602879701896397 / 2 ^ 54) =
     5404319552844596 / 2 ^ 54"
  by code_simp

lemma number_difference_tenths:
  "binary64 (5404319552844595 / 2 ^ 54 - 3602879701896397 / 2 ^ 55) =
     7205759403792793 / 2 ^ 55"
  by code_simp

lemma number_exact:
  "binary64 (- 50) = - 50" "binary64 50 = 50" "binary64 100 = 100" "binary64 1000 = 1000"
  "binary64 (101 / 2) = 101 / 2" "binary64 (1 / 2) = 1 / 2"
  by code_simp+

text \<open>
  An integer above \<open>2^53\<close> that lies halfway between two numbers goes to the one with
  the even significand.
\<close>

lemma number_ties_to_even:
  "binary64 9007199254740993 = 9007199254740992"
  "binary64 9007199254740995 = 9007199254740996"
  by code_simp+

section \<open>Deposit\<close>

text \<open>What a deposit by a user with a wallet returns and writes.\<close>

lemma deposit_with_wallet:
  assumes w: "wallet_findUnique_userId db userId = Some wallet"
  obtains r db' where "deposit e userId dto db = (Inr r, db')"
    and "dr_previousBalance r = toNumber (w_balance wallet)"
    and "dr_newBalance r = number_plus (toNumber (w_balance wallet)) (d_amount dto)"
    and "wallet_findUnique_userId db' userId = Some (wallet\<lparr>w_balance := dr_newBalance r\<rparr>)"
    and "transactions db' = transactions db @ [dr_transaction r]"
    and "dr_transaction r =
           \<lparr>t_id = fresh_id e, t_type = DEPOSIT, t_amount = d_amount dto,
            t_status = COMPLETED,
            t_description = Some (or_default (d_description dto) msg_deposito),
            t_fromWalletId = None, t_toWalletId = Some (w_id wallet),
            t_reversedTransactionId = None, t_createdAt = now e,
            t_processedAt = Some (now e)\<rparr>"
proof -
  let ?new = "number_plus (toNumber (w_balance wallet)) (d_amount dto)"
  from by_userId_has_id[OF w] obtain w0 where w0: "wallet_findUnique_id db (w_id wallet) = Some w0"
    by auto
  from wallet_update_found[OF w0, of "\<lambda>_. ?new"]
  obtain tx1 where u1: "wallet_update (w_id wallet) (\<lambda>_. ?new) db = Inr tx1"
    and ws1: "wallets tx1 = map (set_balance (w_id wallet) (\<lambda>_. ?new)) (wallets db)"
    and ts1: "transactions tx1 = transactions db"
    by blast
  have l1: "wallet_findUnique_userId tx1 userId = Some (wallet\<lparr>w_balance := ?new\<rparr>)"
    by (simp add: by_userId_after_update[OF ws1] w set_balance_def)
  let ?data = "\<lparr>t_id = [], t_type = DEPOSIT, t_amount = d_amount dto, t_status = COMPLETED,
            t_description = Some (or_default (d_description dto) msg_deposito),
            t_fromWalletId = None, t_toWalletId = Some (w_id wallet),
            t_reversedTransactionId = None, t_createdAt = 0,
            t_processedAt = Some (now e)\<rparr>"
  obtain row tx2 where c: "transaction_create e ?data tx1 = (row, tx2)"
    and row: "row = ?data\<lparr>t_id := fresh_id e, t_createdAt := now e\<rparr>"
    and ts2: "transactions tx2 = transactions tx1 @ [row]"
    and ws2: "wallets tx2 = wallets tx1"
    by (rule transaction_create_result)
  have res: "deposit e userId dto db =
          (Inr \<lparr>dr_transaction = row, dr_newBalance = ?new,
                dr_previousBalance = toNumber (w_balance wallet)\<rparr>, tx2)"
    by (simp add: deposit_def dollar_transaction_def deposit_callback_def Let_def w u1 c)
  have l2: "wallet_findUnique_userId tx2 userId = Some (wallet\<lparr>w_balance := ?new\<rparr>)"
    using l1 by (simp add: by_userId_same_wallets[OF ws2])
  show ?thesis
    by (rule that[OF res]) (simp_all add: l2 ts2 ts1 row)
qed




section \<open>Transfer\<close>

text \<open>
  What a transfer returns and writes once its checks have passed: the sender's balance is
  the difference the language computes, the recipient's is incremented by the database.
\<close>

lemma transfer_between_wallets:
  assumes fromUser: "user_findUnique_id db userId = Some fromUser"
    and notself: "u_cpf fromUser \<noteq> cleanCpf (tr_recipientCpf dto)"
    and toUser: "user_findUnique_cpf db (cleanCpf (tr_recipientCpf dto)) = Some toUser"
    and w1: "wallet_findUnique_userId db userId = Some w1"
    and w2: "wallet_findUnique_userId db (u_id toUser) = Some w2"
    and distinct: "w_id w1 \<noteq> w_id w2"
    and enough: "tr_amount dto \<le> toNumber (w_balance w1)"
  obtains r db' where "transfer e userId dto db = (Inr r, db')"
    and "xr_previousBalance r = toNumber (w_balance w1)"
    and "xr_newBalance r = number_minus (toNumber (w_balance w1)) (tr_amount dto)"
    and "wallet_findUnique_userId db' userId = Some (w1\<lparr>w_balance := xr_newBalance r\<rparr>)"
    and "wallet_findUnique_userId db' (u_id toUser) =
           Some (w2\<lparr>w_balance := w_balance w2 + tr_amount dto\<rparr>)"
    and "transactions db' = transactions db @ [xr_transaction r]"
    and "xr_transaction r =
           \<lparr>t_id = fresh_id e, t_type = TRANSFER, t_amount = tr_amount dto,
            t_status = COMPLETED,
            t_description = Some (or_default (tr_description dto) msg_transferencia),
            t_fromWalletId = Some (w_id w1), t_toWalletId = Some (w_id w2),
            t_reversedTransactionId = None, t_createdAt = now e,
            t_processedAt = Some (now e)\<rparr>"
proof -
  let ?new = "number_minus (toNumber (w_balance w1)) (tr_amount dto)"
  from by_userId_has_id[OF w1] obtain a where a: "wallet_findUnique_id db (w_id w1) = Some a"
    by auto
  from by_userId_has_id[OF w2] obtain b where b: "wallet_findUnique_id db (w_id w2) = Some b"
    by auto
  from wallet_update_found[OF a, of "\<lambda>_. ?new"]
  obtain tx1 where u1: "wallet_update (w_id w1) (\<lambda>_. ?new) db = Inr tx1"
    and ws1: "wallets tx1 = map (set_balance (w_id w1) (\<lambda>_. ?new)) (wallets db)"
    and ts1: "transactions tx1 = transactions db"
    by blast
  have b1: "wallet_findUnique_id tx1 (w_id w2) = Some (set_balance (w_id w1) (\<lambda>_. ?new) b)"
    by (simp add: by_id_after_update[OF ws1] b)
  from wallet_update_found[OF b1, of "\<lambda>b. b + tr_amount dto"]
  obtain tx2 where u2: "wallet_update (w_id w2) (\<lambda>b. b + tr_amount dto) tx1 = Inr tx2"
    and ws2: "wallets tx2 = map (set_balance (w_id w2) (\<lambda>b. b + tr_amount dto)) (wallets tx1)"
    and ts2: "transactions tx2 = transactions tx1"
    by blast
  have l1: "wallet_findUnique_userId tx2 userId = Some (w1\<lparr>w_balance := ?new\<rparr>)"
    using distinct
    by (simp add: by_userId_after_update[OF ws2] by_userId_after_update[OF ws1] w1 set_balance_def)
  have l2: "wallet_findUnique_userId tx2 (u_id toUser) =
              Some (w2\<lparr>w_balance := w_balance w2 + tr_amount dto\<rparr>)"
    using distinct
    by (simp add: by_userId_after_update[OF ws2] by_userId_after_update[OF ws1] w2 set_balance_def)
  let ?data = "\<lparr>t_id = [], t_type = TRANSFER, t_amount = tr_amount dto, t_status = COMPLETED,
            t_description = Some (or_default (tr_description dto) msg_transferencia),
            t_fromWalletId = Some (w_id w1), t_toWalletId = Some (w_id w2),
            t_reversedTransactionId = None, t_createdAt = 0,
            t_processedAt = Some (now e)\<rparr>"
  obtain row tx3 where c: "transaction_create e ?data tx2 = (row, tx3)"
    and row: "row = ?data\<lparr>t_id := fresh_id e, t_createdAt := now e\<rparr>"
    and ts3: "transactions tx3 = transactions tx2 @ [row]"
    and ws3: "wallets tx3 = wallets tx2"
    by (rule transaction_create_result)
  have res: "transfer e userId dto db =
          (Inr \<lparr>xr_transaction = row, xr_newBalance = ?new,
                xr_previousBalance = toNumber (w_balance w1), xr_recipient_id = u_id toUser,
                xr_recipient_name = u_name toUser\<rparr>, tx3)"
    using enough
    by (simp add: transfer_def dollar_transaction_def transfer_callback_def Let_def
        fromUser notself toUser w1 w2 u1 u2 c)
  have l3: "wallet_findUnique_userId tx3 userId = Some (w1\<lparr>w_balance := ?new\<rparr>)"
    using l1 by (simp add: by_userId_same_wallets[OF ws3])
  have l4: "wallet_findUnique_userId tx3 (u_id toUser) =
              Some (w2\<lparr>w_balance := w_balance w2 + tr_amount dto\<rparr>)"
    using l2 by (simp add: by_userId_same_wallets[OF ws3])
  show ?thesis
    by (rule that[OF res]) (simp_all add: l3 l4 ts3 ts2 ts1 row)
qed

text \<open>The checks of a transfer on the ledger of Dora and Edu, Edu sending to Dora.\<close>

lemma tenths_transfer_checks:
  "user_findUnique_id ledger_tenths ''u5'' = Some edu"
  "u_cpf edu \<noteq> cleanCpf ''111.444.777-35''"
  "user_findUnique_cpf ledger_tenths (cleanCpf ''111.444.777-35'') = Some dora"
  "wallet_findUnique_userId ledger_tenths ''u5'' =
     Some \<lparr>w_id = ''w5'', w_userId = ''u5'', w_balance = 3 / 10\<rparr>"
  "wallet_findUnique_userId ledger_tenths (u_id dora) =
     Some \<lparr>w_id = ''w4'', w_userId = ''u4'', w_balance = 1 / 10\<rparr>"
  by (simp_all add: user_findUnique_id_def user_findUnique_cpf_def wallet_findUnique_userId_def
      cleanCpf_def ledger_tenths_def dora_def edu_def)




text \<open>
  C7. Inside the atomic unit of a transfer the sender's wallet is checked for \<open>null\<close>,
  the recipient's is not. Run on a store where the sender has a wallet and the
  recipient's wallet is gone, the callback does not end with NotFound: with a sufficient
  balance it writes the sender's balance and then ends with a \<open>TypeError\<close> on
  \<open>toWallet.id\<close>, and with an insufficient one it ends with the insufficient-funds
  BadRequest. Both are rolled back.
\<close>

theorem transfer_recipient_wallet_unchecked:
  "wallet_findUnique_userId ledger_vanished ''u1'' =
     Some \<lparr>w_id = ''w1'', w_userId = ''u1'', w_balance = 101 / 2\<rparr> \<and>
   wallet_findUnique_userId ledger_vanished (u_id bia) = None \<and>
   dollar_transaction
     (transfer_callback env0 ''u1'' bia
        \<lparr>tr_recipientCpf = ''153.509.460-56'', tr_amount = 50, tr_description = None\<rparr>)
     ledger_vanished = (Inl (TypeError ''id''), ledger_vanished) \<and>
   dollar_transaction
     (transfer_callback env0 ''u1'' bia
        \<lparr>tr_recipientCpf = ''153.509.460-56'', tr_amount = 1000, tr_description = None\<rparr>)
     ledger_vanished =
       (Inl (BadRequestException (msg_saldo_insuficiente @ toFixed2 (101 / 2))), ledger_vanished)"
proof -
  have w: "wallet_findUnique_userId ledger_vanished ''u1'' =
             Some \<lparr>w_id = ''w1'', w_userId = ''u1'', w_balance = 101 / 2\<rparr>"
    by (simp add: wallet_findUnique_userId_def ledger_vanished_def)
  have n: "wallet_findUnique_userId ledger_vanished (u_id bia) = None"
    by (simp add: wallet_findUnique_userId_def ledger_vanished_def bia_def)
  show ?thesis
    using w n
    by (simp add: dollar_transaction_def transfer_callback_recipient_absent[OF w n]
        toNumber_def number_exact)
qed

section \<open>The arithmetic of the service\<close>

text \<open>
  C9. The arithmetic of \<open>deposit\<close> and \<open>transfer\<close> is that of JavaScript numbers, not
  of decimals with two places. Reading the stored 0.10 with \<open>toNumber()\<close> does not give
  0.10. After Dora, who holds 0.10, deposits the number 0.2, the balance written to her
  wallet is 0.30000000000000004, not 0.30; after Edu, who holds 0.30, sends the number
  0.1, the balance written to his wallet is 0.19999999999999998, not 0.20.
\<close>

theorem service_arithmetic_is_binary64:
  "toNumber (1 / 10) = 3602879701896397 / 2 ^ 55 \<and>
   toNumber (1 / 10) \<noteq> 1 / 10 \<and>
   map_option w_balance
     (wallet_findUnique_userId
        (snd (deposit env0 ''u4'' \<lparr>d_amount = binary64 (1 / 5), d_description = None\<rparr>
                ledger_tenths)) ''u4'') = Some (5404319552844596 / 2 ^ 54) \<and>
   (5404319552844596 / 2 ^ 54 :: rat) \<noteq> 3 / 10 \<and>
   map_option w_balance
     (wallet_findUnique_userId
        (snd (transfer env0 ''u5''
                \<lparr>tr_recipientCpf = ''111.444.777-35'', tr_amount = binary64 (1 / 10),
                 tr_description = None\<rparr> ledger_tenths)) ''u5'') =
     Some (7205759403792793 / 2 ^ 55) \<and>
   (7205759403792793 / 2 ^ 55 :: rat) \<noteq> 1 / 5"
proof -
  let ?ddto = "\<lparr>d_amount = binary64 (1 / 5), d_description = None\<rparr>"
  let ?tdto = "\<lparr>tr_recipientCpf = ''111.444.777-35'', tr_amount = binary64 (1 / 10),
                tr_description = None\<rparr>"
  let ?w4 = "\<lparr>w_id = ''w4'', w_userId = ''u4'', w_balance = 1 / 10\<rparr>"
  let ?w5 = "\<lparr>w_id = ''w5'', w_userId = ''u5'', w_balance = 3 / 10\<rparr>"
  have read: "toNumber (1 / 10) = 3602879701896397 / 2 ^ 55"
    by (simp only: toNumber_def number_one_tenth)
  have lossy: "toNumber (1 / 10) \<noteq> 1 / 10"
    by (simp add: toNumber_def number_one_tenth)
  have w: "wallet_findUnique_userId ledger_tenths ''u4'' = Some ?w4"
    by (simp add: wallet_findUnique_userId_def ledger_tenths_def)
  obtain r db' where res: "deposit env0 ''u4'' ?ddto ledger_tenths = (Inr r, db')"
    and new: "dr_newBalance r = number_plus (toNumber (w_balance ?w4)) (d_amount ?ddto)"
    and written: "wallet_findUnique_userId db' ''u4'' = Some (?w4\<lparr>w_balance := dr_newBalance r\<rparr>)"
    by (rule deposit_with_wallet[OF w])
  have dv: "dr_newBalance r = 5404319552844596 / 2 ^ 54"
    by (simp only: new number_plus_def toNumber_def wallet.simps DepositDto.simps
        number_one_tenth number_one_fifth number_sum_tenths)
  have dep: "map_option w_balance
     (wallet_findUnique_userId (snd (deposit env0 ''u4'' ?ddto ledger_tenths)) ''u4'') =
       Some (5404319552844596 / 2 ^ 54)"
    by (simp only: res snd_conv written option.map wallet.simps dv)
  have enough: "binary64 (1 / 10) \<le> toNumber (3 / 10)"
    by (simp add: toNumber_def number_one_tenth number_three_tenths)
  obtain r2 db2 where res2: "transfer env0 ''u5'' ?tdto ledger_tenths = (Inr r2, db2)"
    and new2: "xr_newBalance r2 = number_minus (toNumber (w_balance ?w5)) (tr_amount ?tdto)"
    and written2: "wallet_findUnique_userId db2 ''u5'' =
                     Some (?w5\<lparr>w_balance := xr_newBalance r2\<rparr>)"
    by (rule transfer_between_wallets[of ledger_tenths "''u5''" edu ?tdto dora ?w5 ?w4 env0])
      (simp_all add: tenths_transfer_checks enough)
  have tv: "xr_newBalance r2 = 7205759403792793 / 2 ^ 55"
    by (simp only: new2 number_minus_def toNumber_def wallet.simps TransferDto.simps
        number_one_tenth number_three_tenths number_difference_tenths)
  have tra: "map_option w_balance
     (wallet_findUnique_userId (snd (transfer env0 ''u5'' ?tdto ledger_tenths)) ''u5'') =
       Some (7205759403792793 / 2 ^ 55)"
    by (simp only: res2 snd_conv written2 option.map wallet.simps tv)
  have "(5404319552844596 / 2 ^ 54 :: rat) \<noteq> 3 / 10" "(7205759403792793 / 2 ^ 55 :: rat) \<noteq> 1 / 5"
    by simp_all
  with read lossy dep tra show ?thesis
    by (intro conjI)
qed

section \<open>Reversal\<close>

text \<open>
  C5. A reversal asked by a user who owns neither the source wallet nor the destination
  wallet of the transaction fails with the Forbidden exception, and the store the
  operation leaves is the store it found: no balance and no status has changed.
\<close>

theorem reverse_unauthorized_forbidden:
  assumes "transaction_findUnique db tid = Some t"
    and "wallet_user_id db (t_toWalletId t) \<noteq> Some uid"
    and "wallet_user_id db (t_fromWalletId t) \<noteq> Some uid"
  shows "reverseTransaction e uid tid db = (Inl (ForbiddenException msg_sem_permissao), db)"
  using assms by (simp add: reverseTransaction_def isOwner_def)

theorem reverse_unauthorized_forbidden_witness:
  "transaction_findUnique ledger ''t2'' = Some tx_transfer \<and>
   wallet_user_id ledger (t_toWalletId tx_transfer) = Some ''u2'' \<and>
   wallet_user_id ledger (t_fromWalletId tx_transfer) = Some ''u1'' \<and>
   reverseTransaction env0 ''u3'' ''t2'' ledger =
     (Inl (ForbiddenException msg_sem_permissao), ledger)"
proof -
  have t: "transaction_findUnique ledger ''t2'' = Some tx_transfer"
    by (simp add: transaction_findUnique_def ledger_def tx_deposit_def tx_transfer_def)
  have a: "wallet_user_id ledger (t_toWalletId tx_transfer) = Some ''u2''"
    by (simp add: wallet_user_id_def wallet_findUnique_id_def ledger_def tx_transfer_def)
  have b: "wallet_user_id ledger (t_fromWalletId tx_transfer) = Some ''u1''"
    by (simp add: wallet_user_id_def wallet_findUnique_id_def ledger_def tx_transfer_def)
  from reverse_unauthorized_forbidden[OF t, of "''u3''" env0] a b
  have "reverseTransaction env0 ''u3'' ''t2'' ledger =
     (Inl (ForbiddenException msg_sem_permissao), ledger)"
    by simp
  with t a b show ?thesis
    by simp
qed

text \<open>
  C4. The guards against repetition, for a transaction that exists and an acting user
  who owns one of its wallets (the checks before them, see C5). A transaction whose
  status is REVERSED is refused with the already-reversed BadRequest; a transaction of
  type REVERSAL is refused with the reversals-cannot-be-reversed BadRequest; and after
  any successful reversal a second attempt on the same transaction is refused as already
  reversed. In each case the store, and so every balance, is left as it was.
\<close>

theorem reversal_repetition_guard:
  "(\<forall>t. transaction_findUnique db tid = Some t \<and> isOwner db t uid \<and> t_status t = REVERSED \<longrightarrow>
       reverseTransaction e uid tid db = (Inl (BadRequestException msg_ja_revertida), db)) \<and>
   (\<forall>t. transaction_findUnique db tid = Some t \<and> isOwner db t uid \<and> t_status t \<noteq> REVERSED \<and>
        t_type t = REVERSAL \<longrightarrow>
       reverseTransaction e uid tid db =
         (Inl (BadRequestException msg_reversoes_nao_revertidas), db)) \<and>
   (\<forall>r db'. reverseTransaction e uid tid db = (Inr r, db') \<longrightarrow>
       reverseTransaction e' uid tid db' = (Inl (BadRequestException msg_ja_revertida), db'))"
proof (intro conjI allI impI)
  fix t
  assume "transaction_findUnique db tid = Some t \<and> isOwner db t uid \<and> t_status t = REVERSED"
  then show "reverseTransaction e uid tid db = (Inl (BadRequestException msg_ja_revertida), db)"
    by (simp add: reverseTransaction_def)
next
  fix t
  assume "transaction_findUnique db tid = Some t \<and> isOwner db t uid \<and> t_status t \<noteq> REVERSED \<and>
        t_type t = REVERSAL"
  then show "reverseTransaction e uid tid db =
         (Inl (BadRequestException msg_reversoes_nao_revertidas), db)"
    by (simp add: reverseTransaction_def)
next
  fix r db'
  assume first: "reverseTransaction e uid tid db = (Inr r, db')"
  from reverse_success_shape[OF first]
  obtain t g where t: "transaction_findUnique db tid = Some t"
    and own: "isOwner db t uid"
    and ws: "wallets db' = map g (wallets db)"
    and gi: "\<And>w. w_id (g w) = w_id w" and gu: "\<And>w. w_userId (g w) = w_userId w"
    and ts: "transactions db' =
           map (set_status tid REVERSED) (transactions db) @ [rr_reversalTransaction r]"
    by blast
  have t': "transaction_findUnique db' tid = Some (t\<lparr>t_status := REVERSED\<rparr>)"
    by (rule tx_lookup_after_status[OF ts t])
  have "isOwner db' (t\<lparr>t_status := REVERSED\<rparr>) uid = isOwner db t uid"
    by (rule isOwner_map_inv[OF ws gi gu]) simp_all
  with own have own': "isOwner db' (t\<lparr>t_status := REVERSED\<rparr>) uid"
    by simp
  show "reverseTransaction e' uid tid db' = (Inl (BadRequestException msg_ja_revertida), db')"
    by (simp add: reverseTransaction_def t' own')
qed

theorem reversal_repetition_guard_witness:
  "reverseTransaction env0 ''u1'' ''t2'' ledger_reversed =
     (Inl (BadRequestException msg_ja_revertida), ledger_reversed) \<and>
   reverseTransaction env0 ''u1'' ''t4'' ledger_reversed =
     (Inl (BadRequestException msg_reversoes_nao_revertidas), ledger_reversed) \<and>
   (\<exists>r db'. reverseTransaction env0 ''u1'' ''t2'' ledger = (Inr r, db') \<and>
      reverseTransaction \<lparr>fresh_id = ''t10'', now = 91\<rparr> ''u1'' ''t2'' db' =
        (Inl (BadRequestException msg_ja_revertida), db'))"
proof -
  have w1: "wallet_findUnique_id ledger_reversed ''w1'' =
              Some \<lparr>w_id = ''w1'', w_userId = ''u1'', w_balance = 201 / 2\<rparr>"
    by (simp add: wallet_findUnique_id_def ledger_reversed_def)
  have t2: "transaction_findUnique ledger_reversed ''t2'' =
              Some (tx_transfer\<lparr>t_status := REVERSED\<rparr>)"
    by (simp add: transaction_findUnique_def ledger_reversed_def tx_deposit_def tx_transfer_def)
  have o2: "isOwner ledger_reversed (tx_transfer\<lparr>t_status := REVERSED\<rparr>) ''u1''"
    by (simp add: isOwner_def wallet_user_id_def w1 tx_transfer_def)
  have t4: "transaction_findUnique ledger_reversed ''t4'' = Some tx_reversal"
    by (simp add: transaction_findUnique_def ledger_reversed_def tx_deposit_def tx_transfer_def
        tx_caio_def tx_reversal_def)
  have o4: "isOwner ledger_reversed tx_reversal ''u1''"
    by (simp add: isOwner_def wallet_user_id_def w1 tx_reversal_def)
  have a: "reverseTransaction env0 ''u1'' ''t2'' ledger_reversed =
     (Inl (BadRequestException msg_ja_revertida), ledger_reversed)"
    using reversal_repetition_guard[of ledger_reversed "''t2''" "''u1''" env0 env0] t2 o2
    by simp
  have b: "reverseTransaction env0 ''u1'' ''t4'' ledger_reversed =
     (Inl (BadRequestException msg_reversoes_nao_revertidas), ledger_reversed)"
    using reversal_repetition_guard[of ledger_reversed "''t4''" "''u1''" env0 env0] t4 o4
    by (simp add: tx_reversal_def)
  have l2: "transaction_findUnique ledger ''t2'' = Some tx_transfer"
    by (simp add: transaction_findUnique_def ledger_def tx_deposit_def tx_transfer_def)
  have lw1: "wallet_findUnique_id ledger ''w1'' =
              Some \<lparr>w_id = ''w1'', w_userId = ''u1'', w_balance = 101 / 2\<rparr>"
    by (simp add: wallet_findUnique_id_def ledger_def)
  have lw2: "wallet_findUnique_id ledger ''w2'' =
              Some \<lparr>w_id = ''w2'', w_userId = ''u2'', w_balance = 50\<rparr>"
    by (simp add: wallet_findUnique_id_def ledger_def)
  have lo: "isOwner ledger tx_transfer ''u1''"
    by (simp add: isOwner_def wallet_user_id_def lw1 lw2 tx_transfer_def)
  obtain r db' where first: "reverseTransaction env0 ''u1'' ''t2'' ledger = (Inr r, db')"
    by (rule reverse_transfer_succeeds[OF l2 lo _ _ _ _ _ _ lw1 lw2, of env0])
      (simp_all add: tx_transfer_def)
  with reversal_repetition_guard[of ledger "''t2''" "''u1''" env0 "\<lparr>fresh_id = ''t10'', now = 91\<rparr>"]
  have "reverseTransaction \<lparr>fresh_id = ''t10'', now = 91\<rparr> ''u1'' ''t2'' db' =
        (Inl (BadRequestException msg_ja_revertida), db')"
    by simp
  with first a b show ?thesis
    by simp
qed

text \<open>
  C3. Reversing a COMPLETED TRANSFER of \<open>A\<close> between two wallets, asked by the owner of
  either. When the destination wallet holds less than \<open>A\<close> the operation fails with the
  insufficient-balance-for-reversal BadRequest and the store is unchanged. Otherwise it
  succeeds: the source wallet gains \<open>A\<close>, the destination wallet loses \<open>A\<close>, the
  original becomes REVERSED, a COMPLETED REVERSAL of \<open>A\<close> from the original destination
  to the original source, referring to the original, is appended, and \<open>newBalance\<close> is
  the balance of the acting user's own wallet afterwards: the source's new balance for
  the sender, the destination's for the recipient.
\<close>

theorem reverse_transfer_correct:
  assumes t: "transaction_findUnique db tid = Some t"
    and ty: "t_type t = TRANSFER" and st: "t_status t = COMPLETED"
    and src: "t_fromWalletId t = Some f" "f \<noteq> []"
    and dst: "t_toWalletId t = Some d" "d \<noteq> []"
    and ne: "f \<noteq> d"
    and wsrc: "wallet_findUnique_id db f = Some wsrc"
    and wdst: "wallet_findUnique_id db d = Some wdst"
    and own: "w_userId wsrc = uid \<or> w_userId wdst = uid"
  shows "(w_balance wdst < t_amount t \<longrightarrow>
            reverseTransaction e uid tid db =
              (Inl (BadRequestException msg_sem_saldo_reversao), db)) \<and>
         (t_amount t \<le> w_balance wdst \<longrightarrow>
            (\<exists>r db'. reverseTransaction e uid tid db = (Inr r, db') \<and>
               wallet_findUnique_id db' f =
                 Some (wsrc\<lparr>w_balance := w_balance wsrc + t_amount t\<rparr>) \<and>
               wallet_findUnique_id db' d =
                 Some (wdst\<lparr>w_balance := w_balance wdst - t_amount t\<rparr>) \<and>
               transaction_findUnique db' tid = Some (t\<lparr>t_status := REVERSED\<rparr>) \<and>
               transactions db' =
                 map (set_status tid REVERSED) (transactions db) @ [rr_reversalTransaction r] \<and>
               t_type (rr_reversalTransaction r) = REVERSAL \<and>
               t_status (rr_reversalTransaction r) = COMPLETED \<and>
               t_amount (rr_reversalTransaction r) = t_amount t \<and>
               t_fromWalletId (rr_reversalTransaction r) = Some d \<and>
               t_toWalletId (rr_reversalTransaction r) = Some f \<and>
               t_reversedTransactionId (rr_reversalTransaction r) = Some tid \<and>
               (\<exists>wu. wallet_findUnique_userId db' uid = Some wu \<and>
                     rr_newBalance r = w_balance wu) \<and>
               (wallet_findUnique_userId db uid = Some wsrc \<longrightarrow>
                  rr_newBalance r = w_balance wsrc + t_amount t) \<and>
               (wallet_findUnique_userId db uid = Some wdst \<longrightarrow>
                  rr_newBalance r = w_balance wdst - t_amount t)))"
proof (intro conjI impI)
  have owner: "isOwner db t uid"
    by (rule isOwner_of_wallets[OF src(1) dst(1) wsrc wdst own])
  have live: "t_status t \<noteq> REVERSED"
    by (simp add: st)
  {
    assume "w_balance wdst < t_amount t"
    then show "reverseTransaction e uid tid db =
                 (Inl (BadRequestException msg_sem_saldo_reversao), db)"
      by (rule reverse_transfer_insufficient[OF t owner live ty src dst wdst])
  next
    let ?g = "\<lambda>w. set_balance d (\<lambda>b. b - t_amount t) (set_balance f (\<lambda>b. b + t_amount t) w)"
    assume enough: "t_amount t \<le> w_balance wdst"
    from reverse_transfer_succeeds[OF t owner live ty src dst wsrc wdst enough, of e]
    obtain r db' wu where res: "reverseTransaction e uid tid db = (Inr r, db')"
      and ws: "wallets db' = map ?g (wallets db)"
      and ts: "transactions db' =
                 map (set_status tid REVERSED) (transactions db) @ [rr_reversalTransaction r]"
      and row: "rr_reversalTransaction r =
           \<lparr>t_id = fresh_id e, t_type = REVERSAL, t_amount = t_amount t, t_status = COMPLETED,
            t_description = Some (''Estorno: '' @ template_string (t_description t)),
            t_fromWalletId = Some d, t_toWalletId = Some f,
            t_reversedTransactionId = Some tid, t_createdAt = now e,
            t_processedAt = Some (now e)\<rparr>"
      and wu: "wallet_findUnique_userId db uid = Some wu"
      and nb: "rr_newBalance r = w_balance (?g wu)"
      by blast
    have idf: "w_id wsrc = f" and idd: "w_id wdst = d"
      using by_id_is_id[OF wsrc] by_id_is_id[OF wdst] by simp_all
    have a: "wallet_findUnique_id db' f =
               Some (wsrc\<lparr>w_balance := w_balance wsrc + t_amount t\<rparr>)"
      using ne by (simp add: by_id_map_inv[OF ws] wsrc set_balance_def idf)
    have b: "wallet_findUnique_id db' d =
               Some (wdst\<lparr>w_balance := w_balance wdst - t_amount t\<rparr>)"
      using ne by (simp add: by_id_map_inv[OF ws] wdst set_balance_def idd)
    have c: "transaction_findUnique db' tid = Some (t\<lparr>t_status := REVERSED\<rparr>)"
      by (rule tx_lookup_after_status[OF ts t])
    have u: "wallet_findUnique_userId db' uid = Some (?g wu)"
      by (simp add: by_userId_map_inv[OF ws] wu)
    have n1: "wallet_findUnique_userId db uid = Some wsrc \<longrightarrow>
                rr_newBalance r = w_balance wsrc + t_amount t"
      using ne wu by (auto simp: nb set_balance_def idf)
    have n2: "wallet_findUnique_userId db uid = Some wdst \<longrightarrow>
                rr_newBalance r = w_balance wdst - t_amount t"
      using ne wu by (auto simp: nb set_balance_def idd)
    show "\<exists>r db'. reverseTransaction e uid tid db = (Inr r, db') \<and>
               wallet_findUnique_id db' f =
                 Some (wsrc\<lparr>w_balance := w_balance wsrc + t_amount t\<rparr>) \<and>
               wallet_findUnique_id db' d =
                 Some (wdst\<lparr>w_balance := w_balance wdst - t_amount t\<rparr>) \<and>
               transaction_findUnique db' tid = Some (t\<lparr>t_status := REVERSED\<rparr>) \<and>
               transactions db' =
                 map (set_status tid REVERSED) (transactions db) @ [rr_reversalTransaction r] \<and>
               t_type (rr_reversalTransaction r) = REVERSAL \<and>
               t_status (rr_reversalTransaction r) = COMPLETED \<and>
               t_amount (rr_reversalTransaction r) = t_amount t \<and>
               t_fromWalletId (rr_reversalTransaction r) = Some d \<and>
               t_toWalletId (rr_reversalTransaction r) = Some f \<and>
               t_reversedTransactionId (rr_reversalTransaction r) = Some tid \<and>
               (\<exists>wu. wallet_findUnique_userId db' uid = Some wu \<and>
                     rr_newBalance r = w_balance wu) \<and>
               (wallet_findUnique_userId db uid = Some wsrc \<longrightarrow>
                  rr_newBalance r = w_balance wsrc + t_amount t) \<and>
               (wallet_findUnique_userId db uid = Some wdst \<longrightarrow>
                  rr_newBalance r = w_balance wdst - t_amount t)"
      using res a b c ts u nb n1 n2 by (simp add: row)
  }
qed

theorem reverse_transfer_correct_witness:
  "(\<exists>r db'. reverseTransaction env0 ''u1'' ''t2'' ledger = (Inr r, db') \<and>
      wallet_findUnique_id db' ''w1'' =
        Some \<lparr>w_id = ''w1'', w_userId = ''u1'', w_balance = 201 / 2\<rparr> \<and>
      wallet_findUnique_id db' ''w2'' =
        Some \<lparr>w_id = ''w2'', w_userId = ''u2'', w_balance = 0\<rparr> \<and>
      transaction_findUnique db' ''t2'' = Some (tx_transfer\<lparr>t_status := REVERSED\<rparr>) \<and>
      t_fromWalletId (rr_reversalTransaction r) = Some ''w2'' \<and>
      t_toWalletId (rr_reversalTransaction r) = Some ''w1'' \<and>
      rr_newBalance r = 201 / 2) \<and>
   reverseTransaction env0 ''u2'' ''t3'' ledger =
     (Inl (BadRequestException msg_sem_saldo_reversao), ledger)"
proof -
  have t2: "transaction_findUnique ledger ''t2'' = Some tx_transfer"
    by (simp add: transaction_findUnique_def ledger_def tx_deposit_def tx_transfer_def)
  have t3: "transaction_findUnique ledger ''t3'' = Some tx_caio"
    by (simp add: transaction_findUnique_def ledger_def tx_deposit_def tx_transfer_def
        tx_caio_def)
  have w1: "wallet_findUnique_id ledger ''w1'' =
              Some \<lparr>w_id = ''w1'', w_userId = ''u1'', w_balance = 101 / 2\<rparr>"
    by (simp add: wallet_findUnique_id_def ledger_def)
  have w2: "wallet_findUnique_id ledger ''w2'' =
              Some \<lparr>w_id = ''w2'', w_userId = ''u2'', w_balance = 50\<rparr>"
    by (simp add: wallet_findUnique_id_def ledger_def)
  have w3: "wallet_findUnique_id ledger ''w3'' =
              Some \<lparr>w_id = ''w3'', w_userId = ''u3'', w_balance = - 50\<rparr>"
    by (simp add: wallet_findUnique_id_def ledger_def)
  have u1: "wallet_findUnique_userId ledger ''u1'' =
              Some \<lparr>w_id = ''w1'', w_userId = ''u1'', w_balance = 101 / 2\<rparr>"
    by (simp add: wallet_findUnique_userId_def ledger_def)
  have ok: "\<exists>r db'. reverseTransaction env0 ''u1'' ''t2'' ledger = (Inr r, db') \<and>
      wallet_findUnique_id db' ''w1'' =
        Some \<lparr>w_id = ''w1'', w_userId = ''u1'', w_balance = 201 / 2\<rparr> \<and>
      wallet_findUnique_id db' ''w2'' =
        Some \<lparr>w_id = ''w2'', w_userId = ''u2'', w_balance = 0\<rparr> \<and>
      transaction_findUnique db' ''t2'' = Some (tx_transfer\<lparr>t_status := REVERSED\<rparr>) \<and>
      t_fromWalletId (rr_reversalTransaction r) = Some ''w2'' \<and>
      t_toWalletId (rr_reversalTransaction r) = Some ''w1'' \<and>
      rr_newBalance r = 201 / 2"
    using reverse_transfer_correct[OF t2 _ _ _ _ _ _ _ w1 w2, of "''u1''" env0] u1
    by (simp add: tx_transfer_def) blast
  have short: "reverseTransaction env0 ''u2'' ''t3'' ledger =
     (Inl (BadRequestException msg_sem_saldo_reversao), ledger)"
    using reverse_transfer_correct[OF t3 _ _ _ _ _ _ _ w2 w3, of "''u2''" env0]
    by (simp add: tx_caio_def)
  from ok short show ?thesis
    by simp
qed

text \<open>
  C6. Reversing a COMPLETED DEPOSIT of \<open>A\<close> succeeds whatever the destination wallet
  holds: there is no hypothesis on its balance \<open>B\<close>, the wallet holds \<open>B - A\<close>
  afterwards, which is negative when \<open>B < A\<close>. The original becomes REVERSED and a
  COMPLETED REVERSAL of \<open>A\<close> with no source, the original destination as destination and
  a reference to the original is appended.
\<close>

theorem reverse_deposit_unconditional:
  assumes t: "transaction_findUnique db tid = Some t"
    and ty: "t_type t = DEPOSIT" and st: "t_status t = COMPLETED"
    and dst: "t_toWalletId t = Some d" "d \<noteq> []"
    and wdst: "wallet_findUnique_id db d = Some wdst"
    and own: "isOwner db t uid"
  shows "\<exists>r db'. reverseTransaction e uid tid db = (Inr r, db') \<and>
           wallet_findUnique_id db' d =
             Some (wdst\<lparr>w_balance := w_balance wdst - t_amount t\<rparr>) \<and>
           (w_balance wdst < t_amount t \<longrightarrow>
              (\<exists>w. wallet_findUnique_id db' d = Some w \<and> w_balance w < 0)) \<and>
           transaction_findUnique db' tid = Some (t\<lparr>t_status := REVERSED\<rparr>) \<and>
           transactions db' =
             map (set_status tid REVERSED) (transactions db) @ [rr_reversalTransaction r] \<and>
           t_type (rr_reversalTransaction r) = REVERSAL \<and>
           t_status (rr_reversalTransaction r) = COMPLETED \<and>
           t_amount (rr_reversalTransaction r) = t_amount t \<and>
           t_fromWalletId (rr_reversalTransaction r) = None \<and>
           t_toWalletId (rr_reversalTransaction r) = Some d \<and>
           t_reversedTransactionId (rr_reversalTransaction r) = Some tid"
proof -
  have live: "t_status t \<noteq> REVERSED"
    by (simp add: st)
  from reverse_deposit_succeeds[OF t own live ty dst wdst, of e]
  obtain r db' wu where res: "reverseTransaction e uid tid db = (Inr r, db')"
    and ws: "wallets db' = map (set_balance d (\<lambda>b. b - t_amount t)) (wallets db)"
    and ts: "transactions db' =
               map (set_status tid REVERSED) (transactions db) @ [rr_reversalTransaction r]"
    and row: "rr_reversalTransaction r =
           \<lparr>t_id = fresh_id e, t_type = REVERSAL, t_amount = t_amount t, t_status = COMPLETED,
            t_description = Some (''Estorno: '' @ template_string (t_description t)),
            t_fromWalletId = None, t_toWalletId = Some d,
            t_reversedTransactionId = Some tid, t_createdAt = now e,
            t_processedAt = Some (now e)\<rparr>"
    by blast
  have idd: "w_id wdst = d"
    by (rule by_id_is_id[OF wdst])
  have b: "wallet_findUnique_id db' d =
             Some (wdst\<lparr>w_balance := w_balance wdst - t_amount t\<rparr>)"
    by (simp add: by_id_after_update[OF ws] wdst set_balance_def idd)
  have c: "transaction_findUnique db' tid = Some (t\<lparr>t_status := REVERSED\<rparr>)"
    by (rule tx_lookup_after_status[OF ts t])
  show ?thesis
    using res b c ts by (simp add: row)
qed

theorem reverse_deposit_unconditional_witness:
  "\<exists>r db'. reverseTransaction env0 ''u1'' ''t1'' ledger = (Inr r, db') \<and>
      wallet_findUnique_id db' ''w1'' =
        Some \<lparr>w_id = ''w1'', w_userId = ''u1'', w_balance = - 50\<rparr> \<and>
      transaction_findUnique db' ''t1'' = Some (tx_deposit\<lparr>t_status := REVERSED\<rparr>) \<and>
      t_type (rr_reversalTransaction r) = REVERSAL \<and>
      t_status (rr_reversalTransaction r) = COMPLETED \<and>
      t_fromWalletId (rr_reversalTransaction r) = None \<and>
      t_toWalletId (rr_reversalTransaction r) = Some ''w1'' \<and>
      t_reversedTransactionId (rr_reversalTransaction r) = Some ''t1''"
proof -
  have t1: "transaction_findUnique ledger ''t1'' = Some tx_deposit"
    by (simp add: transaction_findUnique_def ledger_def tx_deposit_def)
  have w1: "wallet_findUnique_id ledger ''w1'' =
              Some \<lparr>w_id = ''w1'', w_userId = ''u1'', w_balance = 101 / 2\<rparr>"
    by (simp add: wallet_findUnique_id_def ledger_def)
  have own: "isOwner ledger tx_deposit ''u1''"
    by (simp add: isOwner_def wallet_user_id_def w1 tx_deposit_def)
  show ?thesis
    using reverse_deposit_unconditional[OF t1 _ _ _ _ w1 own, of env0]
    by (simp add: tx_deposit_def) blast
qed

text \<open>
  C10. The reversal never asks the transaction to be COMPLETED. For a DEPOSIT or a
  TRANSFER whose status is PENDING or FAILED, asked by an owner, it proceeds as for a
  COMPLETED one: the balances change by the amount and the status goes straight from
  PENDING or FAILED to REVERSED.
\<close>

theorem reverse_needs_no_completed:
  assumes t: "transaction_findUnique db tid = Some t"
    and st: "t_status t = PENDING \<or> t_status t = FAILED"
    and own: "isOwner db t uid"
  shows "(t_type t = DEPOSIT \<and> t_toWalletId t = Some d \<and> d \<noteq> [] \<and>
          wallet_findUnique_id db d = Some wdst \<longrightarrow>
            (\<exists>r db'. reverseTransaction e uid tid db = (Inr r, db') \<and>
               wallet_findUnique_id db' d =
                 Some (wdst\<lparr>w_balance := w_balance wdst - t_amount t\<rparr>) \<and>
               transaction_findUnique db' tid = Some (t\<lparr>t_status := REVERSED\<rparr>) \<and>
               t_type (rr_reversalTransaction r) = REVERSAL \<and>
               t_reversedTransactionId (rr_reversalTransaction r) = Some tid)) \<and>
         (t_type t = TRANSFER \<and> t_fromWalletId t = Some f \<and> f \<noteq> [] \<and>
          t_toWalletId t = Some d \<and> d \<noteq> [] \<and> f \<noteq> d \<and>
          wallet_findUnique_id db f = Some wsrc \<and> wallet_findUnique_id db d = Some wdst \<and>
          t_amount t \<le> w_balance wdst \<longrightarrow>
            (\<exists>r db'. reverseTransaction e uid tid db = (Inr r, db') \<and>
               wallet_findUnique_id db' f =
                 Some (wsrc\<lparr>w_balance := w_balance wsrc + t_amount t\<rparr>) \<and>
               wallet_findUnique_id db' d =
                 Some (wdst\<lparr>w_balance := w_balance wdst - t_amount t\<rparr>) \<and>
               transaction_findUnique db' tid = Some (t\<lparr>t_status := REVERSED\<rparr>) \<and>
               t_type (rr_reversalTransaction r) = REVERSAL \<and>
               t_reversedTransactionId (rr_reversalTransaction r) = Some tid))"
proof (intro conjI impI)
  have live: "t_status t \<noteq> REVERSED"
    using st by auto
  {
    assume a: "t_type t = DEPOSIT \<and> t_toWalletId t = Some d \<and> d \<noteq> [] \<and>
               wallet_findUnique_id db d = Some wdst"
    then have ty: "t_type t = DEPOSIT" and dst: "t_toWalletId t = Some d" "d \<noteq> []"
      and wdst: "wallet_findUnique_id db d = Some wdst"
      by simp_all
    from reverse_deposit_succeeds[OF t own live ty dst wdst, of e]
    obtain r db' where res: "reverseTransaction e uid tid db = (Inr r, db')"
      and ws: "wallets db' = map (set_balance d (\<lambda>b. b - t_amount t)) (wallets db)"
      and ts: "transactions db' =
                 map (set_status tid REVERSED) (transactions db) @ [rr_reversalTransaction r]"
      and row: "rr_reversalTransaction r =
           \<lparr>t_id = fresh_id e, t_type = REVERSAL, t_amount = t_amount t, t_status = COMPLETED,
            t_description = Some (''Estorno: '' @ template_string (t_description t)),
            t_fromWalletId = None, t_toWalletId = Some d,
            t_reversedTransactionId = Some tid, t_createdAt = now e,
            t_processedAt = Some (now e)\<rparr>"
      by blast
    have b: "wallet_findUnique_id db' d =
               Some (wdst\<lparr>w_balance := w_balance wdst - t_amount t\<rparr>)"
      by (simp add: by_id_after_update[OF ws] wdst set_balance_def by_id_is_id[OF wdst])
    have c: "transaction_findUnique db' tid = Some (t\<lparr>t_status := REVERSED\<rparr>)"
      by (rule tx_lookup_after_status[OF ts t])
    show "\<exists>r db'. reverseTransaction e uid tid db = (Inr r, db') \<and>
               wallet_findUnique_id db' d =
                 Some (wdst\<lparr>w_balance := w_balance wdst - t_amount t\<rparr>) \<and>
               transaction_findUnique db' tid = Some (t\<lparr>t_status := REVERSED\<rparr>) \<and>
               t_type (rr_reversalTransaction r) = REVERSAL \<and>
               t_reversedTransactionId (rr_reversalTransaction r) = Some tid"
      using res b c by (simp add: row)
  next
    let ?g = "\<lambda>w. set_balance d (\<lambda>b. b - t_amount t) (set_balance f (\<lambda>b. b + t_amount t) w)"
    assume a: "t_type t = TRANSFER \<and> t_fromWalletId t = Some f \<and> f \<noteq> [] \<and>
          t_toWalletId t = Some d \<and> d \<noteq> [] \<and> f \<noteq> d \<and>
          wallet_findUnique_id db f = Some wsrc \<and> wallet_findUnique_id db d = Some wdst \<and>
          t_amount t \<le> w_balance wdst"
    then have ty: "t_type t = TRANSFER" and src: "t_fromWalletId t = Some f" "f \<noteq> []"
      and dst: "t_toWalletId t = Some d" "d \<noteq> []" and ne: "f \<noteq> d"
      and wsrc: "wallet_findUnique_id db f = Some wsrc"
      and wdst: "wallet_findUnique_id db d = Some wdst"
      and enough: "t_amount t \<le> w_balance wdst"
      by simp_all
    from reverse_transfer_succeeds[OF t own live ty src dst wsrc wdst enough, of e]
    obtain r db' where res: "reverseTransaction e uid tid db = (Inr r, db')"
      and ws: "wallets db' = map ?g (wallets db)"
      and ts: "transactions db' =
                 map (set_status tid REVERSED) (transactions db) @ [rr_reversalTransaction r]"
      and row: "rr_reversalTransaction r =
           \<lparr>t_id = fresh_id e, t_type = REVERSAL, t_amount = t_amount t, t_status = COMPLETED,
            t_description = Some (''Estorno: '' @ template_string (t_description t)),
            t_fromWalletId = Some d, t_toWalletId = Some f,
            t_reversedTransactionId = Some tid, t_createdAt = now e,
            t_processedAt = Some (now e)\<rparr>"
      by blast
    have x: "wallet_findUnique_id db' f =
               Some (wsrc\<lparr>w_balance := w_balance wsrc + t_amount t\<rparr>)"
      using ne by (simp add: by_id_map_inv[OF ws] wsrc set_balance_def by_id_is_id[OF wsrc])
    have b: "wallet_findUnique_id db' d =
               Some (wdst\<lparr>w_balance := w_balance wdst - t_amount t\<rparr>)"
      using ne by (simp add: by_id_map_inv[OF ws] wdst set_balance_def by_id_is_id[OF wdst])
    have c: "transaction_findUnique db' tid = Some (t\<lparr>t_status := REVERSED\<rparr>)"
      by (rule tx_lookup_after_status[OF ts t])
    show "\<exists>r db'. reverseTransaction e uid tid db = (Inr r, db') \<and>
               wallet_findUnique_id db' f =
                 Some (wsrc\<lparr>w_balance := w_balance wsrc + t_amount t\<rparr>) \<and>
               wallet_findUnique_id db' d =
                 Some (wdst\<lparr>w_balance := w_balance wdst - t_amount t\<rparr>) \<and>
               transaction_findUnique db' tid = Some (t\<lparr>t_status := REVERSED\<rparr>) \<and>
               t_type (rr_reversalTransaction r) = REVERSAL \<and>
               t_reversedTransactionId (rr_reversalTransaction r) = Some tid"
      using res x b c by (simp add: row)
  }
qed

theorem reverse_needs_no_completed_witness:
  "(\<exists>r db'. reverseTransaction env0 ''u1'' ''t1'' ledger_pending = (Inr r, db') \<and>
      wallet_findUnique_id db' ''w1'' =
        Some \<lparr>w_id = ''w1'', w_userId = ''u1'', w_balance = - 50\<rparr> \<and>
      transaction_findUnique db' ''t1'' = Some (tx_deposit\<lparr>t_status := REVERSED\<rparr>)) \<and>
   (\<exists>r db'. reverseTransaction env0 ''u2'' ''t2'' ledger_pending = (Inr r, db') \<and>
      wallet_findUnique_id db' ''w1'' =
        Some \<lparr>w_id = ''w1'', w_userId = ''u1'', w_balance = 201 / 2\<rparr> \<and>
      wallet_findUnique_id db' ''w2'' =
        Some \<lparr>w_id = ''w2'', w_userId = ''u2'', w_balance = 0\<rparr> \<and>
      transaction_findUnique db' ''t2'' = Some (tx_transfer\<lparr>t_status := REVERSED\<rparr>))"
proof -
  have t1: "transaction_findUnique ledger_pending ''t1'' = Some (tx_deposit\<lparr>t_status := FAILED\<rparr>)"
    by (simp add: transaction_findUnique_def ledger_pending_def tx_deposit_def)
  have t2: "transaction_findUnique ledger_pending ''t2'' =
              Some (tx_transfer\<lparr>t_status := PENDING\<rparr>)"
    by (simp add: transaction_findUnique_def ledger_pending_def tx_deposit_def tx_transfer_def)
  have w1: "wallet_findUnique_id ledger_pending ''w1'' =
              Some \<lparr>w_id = ''w1'', w_userId = ''u1'', w_balance = 101 / 2\<rparr>"
    by (simp add: wallet_findUnique_id_def ledger_pending_def)
  have w2: "wallet_findUnique_id ledger_pending ''w2'' =
              Some \<lparr>w_id = ''w2'', w_userId = ''u2'', w_balance = 50\<rparr>"
    by (simp add: wallet_findUnique_id_def ledger_pending_def)
  have o1: "isOwner ledger_pending (tx_deposit\<lparr>t_status := FAILED\<rparr>) ''u1''"
    by (simp add: isOwner_def wallet_user_id_def w1 tx_deposit_def)
  have o2: "isOwner ledger_pending (tx_transfer\<lparr>t_status := PENDING\<rparr>) ''u2''"
    by (simp add: isOwner_def wallet_user_id_def w1 w2 tx_transfer_def)
  have a: "\<exists>r db'. reverseTransaction env0 ''u1'' ''t1'' ledger_pending = (Inr r, db') \<and>
      wallet_findUnique_id db' ''w1'' =
        Some \<lparr>w_id = ''w1'', w_userId = ''u1'', w_balance = - 50\<rparr> \<and>
      transaction_findUnique db' ''t1'' = Some (tx_deposit\<lparr>t_status := REVERSED\<rparr>)"
    using reverse_needs_no_completed[OF t1 _ o1, of "''w1''"
        "\<lparr>w_id = ''w1'', w_userId = ''u1'', w_balance = 101 / 2\<rparr>" env0] w1
    by (simp add: tx_deposit_def) blast
  have b: "\<exists>r db'. reverseTransaction env0 ''u2'' ''t2'' ledger_pending = (Inr r, db') \<and>
      wallet_findUnique_id db' ''w1'' =
        Some \<lparr>w_id = ''w1'', w_userId = ''u1'', w_balance = 201 / 2\<rparr> \<and>
      wallet_findUnique_id db' ''w2'' =
        Some \<lparr>w_id = ''w2'', w_userId = ''u2'', w_balance = 0\<rparr> \<and>
      transaction_findUnique db' ''t2'' = Some (tx_transfer\<lparr>t_status := REVERSED\<rparr>)"
    using reverse_needs_no_completed[OF t2 _ o2, of "''w2''"
        "\<lparr>w_id = ''w2'', w_userId = ''u2'', w_balance = 50\<rparr>" env0 "''w1''"
        "\<lparr>w_id = ''w1'', w_userId = ''u1'', w_balance = 101 / 2\<rparr>"] w1 w2
    by (simp add: tx_transfer_def) blast
  from a b show ?thesis
    by simp
qed

section \<open>History\<close>

text \<open>
  C8. The history of a user with a wallet is the projection, row by row, of a list of
  transactions that holds exactly the rows with the wallet as source or destination
  (with their multiplicity) and is ordered by creation time, newest first. The direction
  of an entry is \<open>received\<close> exactly when the wallet is the destination of its row and
  \<open>sent\<close> otherwise; the other party is present exactly for the rows of type TRANSFER,
  so it is null for DEPOSIT and REVERSAL.
\<close>

theorem history_newest_first:
  assumes "wallet_findUnique_userId db userId = Some wallet"
  shows "\<exists>ts es. getHistory db userId = Inr es \<and>
           mset ts = filter_mset (involves (w_id wallet)) (mset (transactions db)) \<and>
           sorted_wrt (\<lambda>a b. t_createdAt b \<le> t_createdAt a) ts \<and>
           list_all2 (\<lambda>t entry.
              h_id entry = t_id t \<and> h_type entry = t_type t \<and>
              h_amount entry = t_amount t \<and> h_status entry = t_status t \<and>
              h_createdAt entry = t_createdAt t \<and>
              (h_direction entry = ''received'' \<longleftrightarrow> t_toWalletId t = Some (w_id wallet)) \<and>
              (h_direction entry = ''sent'' \<longleftrightarrow> t_toWalletId t \<noteq> Some (w_id wallet)) \<and>
              (h_otherParty entry \<noteq> None \<longleftrightarrow> t_type t = TRANSFER)) ts es"
proof -
  let ?ts = "transaction_findMany db (w_id wallet)"
  have "getHistory db userId = Inr (map (format_entry db wallet) ?ts)"
    by (simp add: getHistory_def assms)
  moreover have "list_all2 (\<lambda>t entry.
              h_id entry = t_id t \<and> h_type entry = t_type t \<and>
              h_amount entry = t_amount t \<and> h_status entry = t_status t \<and>
              h_createdAt entry = t_createdAt t \<and>
              (h_direction entry = ''received'' \<longleftrightarrow> t_toWalletId t = Some (w_id wallet)) \<and>
              (h_direction entry = ''sent'' \<longleftrightarrow> t_toWalletId t \<noteq> Some (w_id wallet)) \<and>
              (h_otherParty entry \<noteq> None \<longleftrightarrow> t_type t = TRANSFER))
            ?ts (map (format_entry db wallet) ?ts)"
    unfolding list_all2_map2
    by (rule list_all2_refl)
      (simp only: format_entry_fields format_entry_direction format_entry_otherParty simp_thms)
  ultimately show ?thesis
    using findMany_all[of db "w_id wallet"] findMany_newest_first[of db "w_id wallet"]
    by blast
qed

theorem history_newest_first_witness:
  "wallet_findUnique_userId ledger_reversed ''u1'' =
     Some \<lparr>w_id = ''w1'', w_userId = ''u1'', w_balance = 201 / 2\<rparr> \<and>
   (\<exists>ts es. getHistory ledger_reversed ''u1'' = Inr es \<and>
      mset ts = filter_mset (involves ''w1'') (mset (transactions ledger_reversed)) \<and>
      sorted_wrt (\<lambda>a b. t_createdAt b \<le> t_createdAt a) ts \<and>
      map h_id es = [''t4'', ''t2'', ''t1''] \<and>
      map h_direction es = [''received'', ''sent'', ''received''] \<and>
      map h_otherParty es = [None, Some \<lparr>op_id = Some ''u2'', op_name = Some ''Bia''\<rparr>, None])"
proof -
  let ?w = "\<lparr>w_id = ''w1'', w_userId = ''u1'', w_balance = 201 / 2\<rparr>"
  have w: "wallet_findUnique_userId ledger_reversed ''u1'' = Some ?w"
    by (simp add: wallet_findUnique_userId_def ledger_reversed_def)
  from history_newest_first[OF w]
  obtain ts es where es: "getHistory ledger_reversed ''u1'' = Inr es"
    and all: "mset ts = filter_mset (involves ''w1'') (mset (transactions ledger_reversed))"
    and newest: "sorted_wrt (\<lambda>a b. t_createdAt b \<le> t_createdAt a) ts"
    by auto
  have rows: "transaction_findMany ledger_reversed ''w1'' =
                [tx_reversal, tx_transfer\<lparr>t_status := REVERSED\<rparr>, tx_deposit]"
    by (simp add: transaction_findMany_def involves_def ledger_reversed_def
        tx_deposit_def tx_transfer_def tx_caio_def tx_reversal_def)
  have party: "wallet_user ledger_reversed (Some ''w2'') = Some bia"
    by (simp add: wallet_user_def wallet_findUnique_id_def user_findUnique_id_def
        ledger_reversed_def ana_def bia_def)
  have "getHistory ledger_reversed ''u1'' =
          Inr (map (format_entry ledger_reversed ?w)
                 [tx_reversal, tx_transfer\<lparr>t_status := REVERSED\<rparr>, tx_deposit])"
    by (simp add: getHistory_def w rows)
  with es have "es = map (format_entry ledger_reversed ?w)
                 [tx_reversal, tx_transfer\<lparr>t_status := REVERSED\<rparr>, tx_deposit]"
    by simp
  then have "map h_id es = [''t4'', ''t2'', ''t1''] \<and>
      map h_direction es = [''received'', ''sent'', ''received''] \<and>
      map h_otherParty es = [None, Some \<lparr>op_id = Some ''u2'', op_name = Some ''Bia''\<rparr>, None]"
    by (simp add: format_entry_def tx_deposit_def tx_transfer_def tx_reversal_def party bia_def)
  with w es all newest show ?thesis
    by (intro conjI exI[of _ ts] exI[of _ es]) simp_all
qed

end
